theory Spec2Isabelle
  imports Complex_Main
begin

section \<open>Python values and library functions\<close>

text \<open>
  The benchmark is a Python program. Its values are modelled as follows.
  \<^item> \<open>float\<close> is \<open>real\<close>, and the values \<open>nan\<close> and \<open>inf\<close> are not modelled.
    A double is a real that the rounding \<open>fl\<close> below leaves as it is. The statistics,
    the test for a tiebreak and the word-count check compare or round to decimals what
    they compute, so that the last bit can decide: there every operation on floats is
    followed by the rounding of doubles. In the other functions the arithmetic is exact.
  \<^item> \<open>int\<close> is \<open>int\<close>; \<open>str\<close> is \<open>string\<close>, one \<open>char\<close> per code point
    (code points below 256).
  \<^item> \<open>Optional[str]\<close> is \<open>string option\<close>; a dictionary that is iterated is an
    association list in insertion order.
  \<^item> A raised exception is the \<open>Inl\<close> of a sum.
  \<^item> A call of a provider is an effect on the outside world: the world is a state of
    type \<open>'w\<close> that every call takes and returns.
  \<^item> The regular expression engine, \<open>int()\<close> and \<open>float()\<close> on strings and the
    formatting of floats are Python's own; they are the fields of a record \<open>pylib\<close>
    that the functions below take as their first argument.
\<close>

datatype py_error = IndexError | KeyError | ProviderFailure string

definition truthy :: "string option \<Rightarrow> bool" where
  "truthy v = (case v of None \<Rightarrow> False | Some s \<Rightarrow> s \<noteq> [])"

text \<open>\<open>round(x)\<close> of a float: to the nearest integer, a tie to the even one.\<close>

definition py_round :: "real \<Rightarrow> int" where
  "py_round x =
     (let f = \<lfloor>x\<rfloor>; d = x - of_int f
      in if d < 1 / 2 then f else if 1 / 2 < d then f + 1 else if even f then f else f + 1)"

text \<open>\<open>int(x)\<close> of a float truncates towards zero.\<close>

definition py_trunc :: "real \<Rightarrow> int" where
  "py_trunc x = (if 0 \<le> x then \<lfloor>x\<rfloor> else \<lceil>x\<rceil>)"

text \<open>The rounding of IEEE doubles: to the nearest number with a significand of 53 bits,
  a tie to the even significand; below \<open>2 ^ -1022\<close> the spacing stays that of the
  subnormal numbers. Overflow to \<open>inf\<close> is not modelled.\<close>

definition pow2 :: "int \<Rightarrow> real" where
  "pow2 e = (if 0 \<le> e then 2 ^ nat e else 1 / 2 ^ nat (- e))"

definition exponent :: "real \<Rightarrow> int" where
  "exponent x = max \<lfloor>log 2 \<bar>x\<bar>\<rfloor> (- 1022)"

definition fl :: "real \<Rightarrow> real" where
  "fl x = (if x = 0 then 0
           else let u = pow2 (exponent x - 52) in real_of_int (py_round (x / u)) * u)"


text \<open>\<open>sum(values)\<close> of floats adds from the left, starting from 0 (the compensated
  summation of Python 3.12 and later is not modelled).\<close>

definition fsum :: "real list \<Rightarrow> real" where
  "fsum values = foldl (\<lambda>acc v. fl (acc + v)) 0 values"

definition digit_char :: "nat \<Rightarrow> char" where
  "digit_char d =
     (if d = 0 then CHR ''0'' else if d = 1 then CHR ''1'' else if d = 2 then CHR ''2''
      else if d = 3 then CHR ''3'' else if d = 4 then CHR ''4'' else if d = 5 then CHR ''5''
      else if d = 6 then CHR ''6'' else if d = 7 then CHR ''7'' else if d = 8 then CHR ''8''
      else CHR ''9'')"

fun str_of_nat :: "nat \<Rightarrow> string" where
  "str_of_nat n = (if n < 10 then [digit_char n] else str_of_nat (n div 10) @ [digit_char (n mod 10)])"

declare str_of_nat.simps [simp del]

definition str_of_int :: "int \<Rightarrow> string" where
  "str_of_int i = (if i < 0 then CHR ''-'' # str_of_nat (nat (- i)) else str_of_nat (nat i))"

definition nl :: string where
  "nl = [CHR 0x0A]"

text \<open>The backslash of a regular expression.\<close>

definition bs :: string where
  "bs = [CHR 0x5C]"

fun py_join :: "string \<Rightarrow> string list \<Rightarrow> string" where
  "py_join sep [] = []"
| "py_join sep [x] = x"
| "py_join sep (x # y # ys) = x @ sep @ py_join sep (y # ys)"

text \<open>\<open>str.isspace\<close> on the code points below 256, and \<open>str.strip()\<close>.\<close>

definition py_isspace :: "char \<Rightarrow> bool" where
  "py_isspace c = ((of_char c :: nat) \<in> {9, 10, 11, 12, 13, 28, 29, 30, 31, 32, 133, 160})"

definition strip :: "string \<Rightarrow> string" where
  "strip s = rev (dropWhile py_isspace (rev (dropWhile py_isspace s)))"

text \<open>\<open>s.split(sep)\<close> for a separator of one character: the fields between the separators,
  at least one.\<close>

fun split_on :: "char \<Rightarrow> string \<Rightarrow> string list" where
  "split_on sep [] = [[]]"
| "split_on sep (c # cs) =
     (if c = sep then [] # split_on sep cs
      else (case split_on sep cs of [] \<Rightarrow> [[c]] | f # fs \<Rightarrow> (c # f) # fs))"

datatype re_flag = IGNORECASE | DOTALL

text \<open>A match object: the whole match (group 0) and the captured groups 1, 2, ...\<close>

type_synonym re_match = "string \<times> string list"

text \<open>\<open>re_search\<close> is also called with patterns that come from the data: its
  \<open>Inl\<close> is the text of \<open>re.error\<close>. \<open>re_match\<close>, \<open>re_findall\<close> (a pattern with
  at most one group: the matches are strings) and \<open>re_findall2\<close> (a pattern with two
  groups: the matches are pairs) are only called with patterns written in the source,
  which compile. \<open>py_int\<close> is \<open>int(s)\<close> with
  the text of its \<open>ValueError\<close>, \<open>py_float\<close> is \<open>float(s)\<close> (\<open>None\<close> for
  \<open>ValueError\<close>), \<open>format_float n x\<close> is \<open>x\<close> printed with \<open>n\<close> decimals.\<close>

record pylib =
  re_search :: "string \<Rightarrow> re_flag list \<Rightarrow> string \<Rightarrow> string + re_match option"
  re_match :: "string \<Rightarrow> re_flag list \<Rightarrow> string \<Rightarrow> re_match option"
  re_findall :: "string \<Rightarrow> re_flag list \<Rightarrow> string \<Rightarrow> string list"
  re_findall2 :: "string \<Rightarrow> re_flag list \<Rightarrow> string \<Rightarrow> (string \<times> string) list"
  py_int :: "string \<Rightarrow> string + int"
  py_float :: "string \<Rightarrow> real option"
  format_float :: "nat \<Rightarrow> real \<Rightarrow> string"

text \<open>\<open>m.group(1)\<close>: raises when the pattern has no group.\<close>

definition group1 :: "re_match \<Rightarrow> string + string" where
  "group1 m = (case snd m of [] \<Rightarrow> Inl ''no such group'' | g # _ \<Rightarrow> Inr g)"

definition bind_exn :: "'e + 'a \<Rightarrow> ('a \<Rightarrow> 'e + 'b) \<Rightarrow> 'e + 'b" where
  "bind_exn r f = (case r of Inl e \<Rightarrow> Inl e | Inr x \<Rightarrow> f x)"

section \<open>Providers (providers/base\_provider.py)\<close>

record ProviderResponse =
  resp_text :: string
  resp_model :: string
  resp_elapsed_seconds :: real
  resp_input_tokens :: int
  resp_output_tokens :: int
  resp_error :: "string option"

text \<open>The fields of a class are prefixed with a tag of the class (\<open>resp_\<close>,
  \<open>msg_\<close>, \<open>prov_\<close>, ...), since a field is a constant of the theory and the
  source reuses field names as names of variables.\<close>

text \<open>A message of a conversation: the dictionary with the keys role, content, elapsed,
  model and error. A key that is absent and a key that holds \<open>None\<close> read the same
  through \<open>msg.get\<close>.\<close>

record msg =
  msg_role :: string
  msg_content :: string
  msg_elapsed :: "real option"
  msg_model :: "string option"
  msg_error :: "string option"

text \<open>\<open>query(prompt, system, max_tokens, temperature)\<close> is abstract in the base class: it
  returns a response or raises (\<open>Inl\<close> the exception's text), and changes the world.
  \<open>query_multi_round(prompts)\<close> is a method that a provider may override; the one of
  the base class is \<open>base_query_multi_round\<close> below.\<close>

record 'w provider =
  prov_provider_id :: string
  prov_display_name :: string
  prov_query :: "string \<Rightarrow> string option \<Rightarrow> nat \<Rightarrow> real \<Rightarrow> 'w \<Rightarrow> (string + ProviderResponse) \<times> 'w"
  prov_query_multi_round :: "string list \<Rightarrow> 'w \<Rightarrow> (string + msg list) \<times> 'w"

definition user_msg :: "string \<Rightarrow> msg" where
  "user_msg p = \<lparr>msg_role = ''user'', msg_content = p, msg_elapsed = None,
                 msg_model = None, msg_error = None\<rparr>"

definition assistant_msg :: "ProviderResponse \<Rightarrow> msg" where
  "assistant_msg response =
     \<lparr>msg_role = ''assistant'', msg_content = resp_text response,
      msg_elapsed = Some (resp_elapsed_seconds response), msg_model = Some (resp_model response),
      msg_error = resp_error response\<rparr>"

definition build_conversation_prompt :: "msg list \<Rightarrow> string" where
  "build_conversation_prompt conversation =
     py_join (nl @ nl)
       (concat (map (\<lambda>m. if msg_role m = ''user'' then [''User: '' @ msg_content m]
                           else if msg_role m = ''assistant'' then [''Assistant: '' @ msg_content m]
                           else []) conversation))"

fun query_multi_round_loop ::
  "(string \<Rightarrow> string option \<Rightarrow> nat \<Rightarrow> real \<Rightarrow> 'w \<Rightarrow> (string + ProviderResponse) \<times> 'w)
   \<Rightarrow> string list \<Rightarrow> msg list \<Rightarrow> 'w \<Rightarrow> (string + msg list) \<times> 'w" where
  "query_multi_round_loop q [] conversation w = (Inr conversation, w)"
| "query_multi_round_loop q (prompt_text # rest) conversation w =
     (let conversation1 = conversation @ [user_msg prompt_text];
          full_prompt = build_conversation_prompt conversation1
      in case q full_prompt None 2048 0.3 w of
           (Inl e, w1) \<Rightarrow> (Inl e, w1)
         | (Inr response, w1) \<Rightarrow>
             query_multi_round_loop q rest (conversation1 @ [assistant_msg response]) w1)"

definition base_query_multi_round ::
  "(string \<Rightarrow> string option \<Rightarrow> nat \<Rightarrow> real \<Rightarrow> 'w \<Rightarrow> (string + ProviderResponse) \<times> 'w)
   \<Rightarrow> string list \<Rightarrow> 'w \<Rightarrow> (string + msg list) \<times> 'w" where
  "base_query_multi_round q prompts w = query_multi_round_loop q prompts [] w"

section \<open>Layer 3: the LLM judge (evaluators/llm\_judge.py)\<close>

definition JUDGE_ROTATION :: "string \<Rightarrow> string option" where
  "JUDGE_ROTATION = map_of
     [(''claude'', ''gpt''), (''gpt'', ''claude''), (''gemini'', ''claude''),
      (''atic_on'', ''gpt''), (''atic_off'', ''gpt'')]"

definition JUDGE_FALLBACK :: "string \<Rightarrow> string option" where
  "JUDGE_FALLBACK = map_of
     [(''claude'', ''gemini''), (''gpt'', ''gemini''), (''gemini'', ''gpt''),
      (''atic_on'', ''claude''), (''atic_off'', ''claude'')]"

definition TIEBREAK_JUDGE :: "string \<Rightarrow> string option" where
  "TIEBREAK_JUDGE = map_of
     [(''claude'', ''gemini''), (''gpt'', ''gemini''), (''gemini'', ''gpt''),
      (''atic_on'', ''gemini''), (''atic_off'', ''gemini'')]"

record JudgeResult =
  jr_score_raw :: int
  jr_normalized :: real
  jr_reason :: string
  jr_judge_model :: string
  jr_judge_provider_id :: string
  jr_tiebreak_used :: bool
  jr_tiebreak_details :: string

record JudgeAudit =
  ja_primary_judge :: string
  ja_primary_score :: int
  ja_primary_reason :: string
  ja_tiebreak_judge :: "string option"
  ja_tiebreak_score :: "int option"
  ja_tiebreak_reason :: "string option"
  ja_final_source :: string

text \<open>The keys of the dictionary of available providers, in its order.\<close>

definition dict_keys :: "(string \<times> 'p) list \<Rightarrow> string list" where
  "dict_keys available = map fst available"

text \<open>\<open>primary and primary in available and primary != provider_id\<close>, for the entry
  \<open>primary\<close> of a rotation table (\<open>None\<close> when the table has no such key).\<close>

definition table_choice :: "string option \<Rightarrow> string \<Rightarrow> (string \<times> 'p) list \<Rightarrow> bool" where
  "table_choice entry provider_id available =
     (case entry of
        None \<Rightarrow> False
      | Some j \<Rightarrow> j \<noteq> [] \<and> j \<in> set (dict_keys available) \<and> j \<noteq> provider_id)"

definition select_judge :: "string \<Rightarrow> (string \<times> 'p) list \<Rightarrow> string option" where
  "select_judge provider_id available =
     (let primary = JUDGE_ROTATION provider_id
      in if table_choice primary provider_id available then primary
         else let fallback = JUDGE_FALLBACK provider_id
              in if table_choice fallback provider_id available then fallback
                 else find (\<lambda>pid. pid \<noteq> provider_id) (dict_keys available))"

definition select_tiebreak_judge ::
  "string \<Rightarrow> string \<Rightarrow> (string \<times> 'p) list \<Rightarrow> string option" where
  "select_tiebreak_judge provider_id primary_judge_id available =
     (let tb = TIEBREAK_JUDGE provider_id
      in if table_choice tb provider_id available \<and> tb \<noteq> Some primary_judge_id then tb
         else find (\<lambda>pid. pid \<noteq> provider_id \<and> pid \<noteq> primary_judge_id) (dict_keys available))"

definition needs_tiebreak :: "int \<Rightarrow> real \<Rightarrow> real \<Rightarrow> bool" where
  "needs_tiebreak judge_score structural_norm reference_norm =
     (let judge_norm = fl (fl (real_of_int judge_score) / 3);
          layer_avg = fl (fl (structural_norm + reference_norm) / 2);
          divergence = \<bar>fl (judge_norm - layer_avg)\<bar>
      in divergence > 0.5)"

definition parse_judge_response :: "pylib \<Rightarrow> string \<Rightarrow> string + (int \<times> string)" where
  "parse_judge_response py txt =
     bind_exn (re_search py (''SCORE:'' @ bs @ ''s*('' @ bs @ ''d)'') [] txt) (\<lambda>score_match.
     bind_exn (re_search py (''REASON:'' @ bs @ ''s*(.+)'') [DOTALL] txt) (\<lambda>reason_match.
     bind_exn (case score_match of
                 None \<Rightarrow> Inr 0
               | Some m \<Rightarrow> bind_exn (group1 m) (\<lambda>g.
                           bind_exn (py_int py g) (\<lambda>raw. Inr (max 0 (min 3 raw))))) (\<lambda>score.
     bind_exn (case reason_match of
                 None \<Rightarrow> Inr []
               | Some m \<Rightarrow> bind_exn (group1 m) (\<lambda>g. Inr (take 200 (strip g)))) (\<lambda>reason.
     case score_match of
       Some m \<Rightarrow> Inr (score, reason)
     | None \<Rightarrow>
         (let nums = re_findall py (bs @ ''b([0-3])'' @ bs @ ''b'') [] txt
          in bind_exn (case nums of [] \<Rightarrow> Inr score | n # _ \<Rightarrow> py_int py n) (\<lambda>score1.
             Inr (score1, ''(parse fallback) '' @ take 150 txt)))))))"

definition call_judge :: "pylib \<Rightarrow> 'w provider \<Rightarrow> string \<Rightarrow> 'w \<Rightarrow> (int \<times> string) \<times> 'w" where
  "call_judge py p prompt w =
     (case prov_query p prompt (Some ''You are an expert AI evaluator. Be objective and fair.'') 200 0.1 w of
        (Inl e, w1) \<Rightarrow> ((0, ''Judge exception: '' @ e), w1)
      | (Inr response, w1) \<Rightarrow>
          (if truthy (resp_error response)
           then ((0, ''Judge error: '' @ the (resp_error response)), w1)
           else (case parse_judge_response py (resp_text response) of
                   Inl e \<Rightarrow> ((0, ''Judge exception: '' @ e), w1)
                 | Inr r \<Rightarrow> (r, w1))))"

definition format_prompts :: "string list \<Rightarrow> string" where
  "format_prompts prompts =
     (case prompts of
        [p] \<Rightarrow> p
      | _ \<Rightarrow> py_join nl (map (\<lambda>(i, p). ''Round '' @ str_of_nat i @ '': '' @ p)
                           (zip [1 ..< Suc (length prompts)] prompts)))"

definition format_responses :: "msg list \<Rightarrow> string" where
  "format_responses rounds =
     (let assistants = filter (\<lambda>m. msg_role m = ''assistant'') rounds
      in py_join (nl @ nl)
           (map (\<lambda>(round_num, m).
                   (let content = msg_content m;
                        content1 = (if length content > 2000
                                    then take 2000 content @ nl @ ''[... truncated]''
                                    else content)
                    in ''Response '' @ str_of_nat round_num @ '':'' @ nl @ content1))
                (zip [1 ..< Suc (length assistants)] assistants)))"

definition JUDGE_PROMPT_TEMPLATE :: "string \<Rightarrow> string \<Rightarrow> string \<Rightarrow> string \<Rightarrow> string \<Rightarrow> string" where
  "JUDGE_PROMPT_TEMPLATE test_name category prompts responses rubric =
     ''You are an expert evaluator assessing an AI model's response quality.'' @ nl @ nl @
     ''## Task Description'' @ nl @
     ''Test: '' @ test_name @ nl @
     ''Category: '' @ category @ nl @ nl @
     ''## User Prompt(s)'' @ nl @
     prompts @ nl @ nl @
     ''## Model Response(s)'' @ nl @
     responses @ nl @ nl @
     ''## Evaluation Rubric'' @ nl @
     rubric @ nl @ nl @
     ''IMPORTANT: Score 0-3 ONLY. Output EXACTLY in this format (nothing else):'' @ nl @
     ''SCORE: N'' @ nl @
     ''REASON: Your explanation here (1-2 sentences)''"

definition fallback_result :: JudgeResult where
  "fallback_result =
     \<lparr>jr_score_raw = 0, jr_normalized = 0, jr_reason = ''No judge available'',
      jr_judge_model = ''none'', jr_judge_provider_id = ''none'',
      jr_tiebreak_used = False, jr_tiebreak_details = []\<rparr>"

text \<open>\<open>if not judge_id\<close> holds of \<open>None\<close> and of the empty string;
  \<open>available_providers[judge_id]\<close> raises \<open>KeyError\<close> on a missing key.\<close>

definition evaluate_judge ::
  "pylib \<Rightarrow> string \<Rightarrow> string \<Rightarrow> string list \<Rightarrow> msg list \<Rightarrow> string \<Rightarrow> string \<Rightarrow>
   (string \<times> 'w provider) list \<Rightarrow> real \<Rightarrow> real \<Rightarrow> bool \<Rightarrow> 'w \<Rightarrow>
   (py_error + JudgeResult \<times> JudgeAudit) \<times> 'w" where
  "evaluate_judge py test_name category prompts rounds rubric evaluated_provider_id
     available_providers structural_normalized reference_normalized enable_tiebreak w =
     (case select_judge evaluated_provider_id available_providers of
        None \<Rightarrow>
          (Inr (fallback_result,
                \<lparr>ja_primary_judge = ''none'', ja_primary_score = 0,
                 ja_primary_reason = ''No judge available'', ja_tiebreak_judge = None,
                 ja_tiebreak_score = None, ja_tiebreak_reason = None,
                 ja_final_source = ''primary''\<rparr>), w)
      | Some judge_id \<Rightarrow>
          if judge_id = [] then
            (Inr (fallback_result,
                  \<lparr>ja_primary_judge = ''none'', ja_primary_score = 0,
                   ja_primary_reason = ''No judge available'', ja_tiebreak_judge = None,
                   ja_tiebreak_score = None, ja_tiebreak_reason = None,
                   ja_final_source = ''primary''\<rparr>), w)
          else
          (case map_of available_providers judge_id of
             None \<Rightarrow> (Inl KeyError, w)
           | Some judge_provider \<Rightarrow>
               (let prompt_text = format_prompts prompts;
                    response_text = format_responses rounds;
                    judge_prompt = JUDGE_PROMPT_TEMPLATE test_name category prompt_text
                                     response_text rubric
                in case call_judge py judge_provider judge_prompt w of
                     ((primary_score, primary_reason), w1) \<Rightarrow>
                (let audit = \<lparr>ja_primary_judge = judge_id, ja_primary_score = primary_score,
                              ja_primary_reason = primary_reason, ja_tiebreak_judge = None,
                              ja_tiebreak_score = None, ja_tiebreak_reason = None,
                              ja_final_source = ''primary''\<rparr>;
                     no_tiebreak =
                       (Inr (\<lparr>jr_score_raw = primary_score,
                              jr_normalized = real_of_int primary_score / 3,
                              jr_reason = primary_reason,
                              jr_judge_model = prov_display_name judge_provider,
                              jr_judge_provider_id = judge_id,
                              jr_tiebreak_used = False, jr_tiebreak_details = []\<rparr>, audit), w1)
                 in if enable_tiebreak \<and>
                       needs_tiebreak primary_score structural_normalized reference_normalized
                    then
                      (case select_tiebreak_judge evaluated_provider_id judge_id
                              available_providers of
                         None \<Rightarrow> no_tiebreak
                       | Some tiebreak_id \<Rightarrow>
                           if tiebreak_id = [] then no_tiebreak
                           else
                           (case map_of available_providers tiebreak_id of
                              None \<Rightarrow> (Inl KeyError, w1)
                            | Some tiebreak_provider \<Rightarrow>
                                (case call_judge py tiebreak_provider judge_prompt w1 of
                                   ((tb_score, tb_reason), w2) \<Rightarrow>
                                (let audit1 = audit\<lparr>ja_tiebreak_judge := Some tiebreak_id,
                                                    ja_tiebreak_score := Some tb_score,
                                                    ja_tiebreak_reason := Some tb_reason\<rparr>;
                                     layer_avg = (structural_normalized + reference_normalized) / 2;
                                     layer_score_equiv = py_round (layer_avg * 3);
                                     (final_score, source) =
                                       (if \<bar>tb_score - primary_score\<bar> \<le> 1
                                        then (primary_score, ''primary (tiebreak confirmed)'')
                                        else if \<bar>tb_score - layer_score_equiv\<bar> \<le> 1
                                        then (py_round (real_of_int (primary_score + tb_score) / 2),
                                              ''average (tiebreak sided with layers)'')
                                        else (py_round (real_of_int (primary_score + tb_score) / 2),
                                              ''average (no consensus)''))
                                 in (Inr (\<lparr>jr_score_raw = final_score,
                                           jr_normalized = real_of_int final_score / 3,
                                           jr_reason = primary_reason,
                                           jr_judge_model = prov_display_name judge_provider,
                                           jr_judge_provider_id = judge_id,
                                           jr_tiebreak_used = True,
                                           jr_tiebreak_details =
                                             ''TB judge='' @ tiebreak_id @ '', score='' @
                                             str_of_int tb_score\<rparr>,
                                          audit1\<lparr>ja_final_source := source\<rparr>), w2)))))
                    else no_tiebreak))))"

section \<open>Test definitions (tests/test\_defs.py)\<close>

record StructuralCheck =
  sc_check_id :: string
  sc_description :: string
  sc_check_type :: string
  sc_pattern :: string
  sc_threshold :: real
  sc_threshold_max :: real
  sc_weight :: real
  sc_target_round :: int

text \<open>\<open>reference_numeric_ranges\<close> is a dictionary from a name to a pair of bounds.\<close>

record TestDef =
  td_test_id :: string
  td_name :: string
  td_category :: string
  td_difficulty :: string
  td_language :: string
  td_prompts :: "string list"
  td_structural_checks :: "StructuralCheck list"
  td_ground_truth :: "string option"
  td_reference_keywords :: "string list"
  td_reference_anti_keywords :: "string list"
  td_reference_numeric_ranges :: "(string \<times> real \<times> real) list"
  td_judge_rubric :: string
  td_anti_hallucination :: bool
  td_domain :: string
  td_tags :: "string list"

section \<open>Layer 1: structural checks (evaluators/structural.py)\<close>

record CheckResult =
  cr_check_id :: string
  cr_description :: string
  cr_passed :: bool
  cr_score :: real
  cr_detail :: string

record StructuralScore =
  ss_normalized :: real
  ss_details :: "CheckResult list"
  ss_total_weight :: real
  ss_weighted_score :: real

definition extract_assistant_texts :: "msg list \<Rightarrow> string list" where
  "extract_assistant_texts rounds =
     map msg_content (filter (\<lambda>m. msg_role m = ''assistant'') rounds)"

definition get_target_text :: "StructuralCheck \<Rightarrow> string list \<Rightarrow> string \<Rightarrow> string" where
  "get_target_text check assistant_texts all_text =
     (if sc_target_round check = - 1 then all_text
      else let idx = sc_target_round check
           in if 0 \<le> idx \<and> idx < int (length assistant_texts)
              then assistant_texts ! nat idx
              else all_text)"

definition check_regex_present :: "pylib \<Rightarrow> StructuralCheck \<Rightarrow> string \<Rightarrow> CheckResult" where
  "check_regex_present py check txt =
     (case re_search py (sc_pattern check) [IGNORECASE, DOTALL] txt of
        Inl e \<Rightarrow>
          \<lparr>cr_check_id = sc_check_id check, cr_description = sc_description check,
           cr_passed = False, cr_score = 0, cr_detail = ''Regex invalido: '' @ e\<rparr>
      | Inr m \<Rightarrow>
          (let found = (m \<noteq> None)
           in \<lparr>cr_check_id = sc_check_id check, cr_description = sc_description check,
               cr_passed = found, cr_score = (if found then 1 else 0),
               cr_detail = ''Pattern '' @ (if found then ''encontrado'' else ''nao encontrado'')
                           @ '': '' @ take 60 (sc_pattern check)\<rparr>))"

definition check_regex_absent :: "pylib \<Rightarrow> StructuralCheck \<Rightarrow> string \<Rightarrow> CheckResult" where
  "check_regex_absent py check txt =
     (case re_search py (sc_pattern check) [IGNORECASE, DOTALL] txt of
        Inl e \<Rightarrow>
          \<lparr>cr_check_id = sc_check_id check, cr_description = sc_description check,
           cr_passed = False, cr_score = 0, cr_detail = ''Regex invalido: '' @ e\<rparr>
      | Inr m \<Rightarrow>
          (let found = (m \<noteq> None)
           in \<lparr>cr_check_id = sc_check_id check, cr_description = sc_description check,
               cr_passed = (\<not> found), cr_score = (if \<not> found then 1 else 0),
               cr_detail = ''Pattern '' @ (if \<not> found then ''ausente (bom)'' else ''presente (ruim)'')
                           @ '': '' @ take 60 (sc_pattern check)\<rparr>))"

text \<open>The lines of \<open>text.strip().split("\n")\<close> that are not blank.\<close>

definition nonblank_lines :: "string \<Rightarrow> string list" where
  "nonblank_lines txt = filter (\<lambda>l. strip l \<noteq> []) (split_on (CHR 0x0A) (strip txt))"

definition check_min_lines :: "StructuralCheck \<Rightarrow> string \<Rightarrow> CheckResult" where
  "check_min_lines check txt =
     (let lines = nonblank_lines txt;
          count = int (length lines);
          required = py_trunc (sc_threshold check);
          score = (if count \<ge> required then 1
                   else if real_of_int count \<ge> real_of_int required * 0.6 then 0.5
                   else 0)
      in \<lparr>cr_check_id = sc_check_id check, cr_description = sc_description check,
          cr_passed = (count \<ge> required), cr_score = score,
          cr_detail = str_of_int count @ '' linhas (minimo: '' @ str_of_int required @ '')''\<rparr>)"

definition item_patterns :: "string list" where
  "item_patterns =
     [''^'' @ bs @ ''s*[-*]'' @ bs @ ''s+'',
      ''^'' @ bs @ ''s*'' @ bs @ ''d+[.)]'' @ bs @ ''s+'',
      ''^'' @ bs @ ''s*[a-zA-Z][.)]'' @ bs @ ''s+'',
      ''^'' @ bs @ ''|.*'' @ bs @ ''|'']"

definition check_min_items :: "pylib \<Rightarrow> StructuralCheck \<Rightarrow> string \<Rightarrow> CheckResult" where
  "check_min_items py check txt =
     (let combined = py_join ''|'' item_patterns;
          lines = split_on (CHR 0x0A) (strip txt);
          items = int (length (filter (\<lambda>l. re_match py combined [] l \<noteq> None) lines));
          required = py_trunc (sc_threshold check);
          score = (if items \<ge> required then 1
                   else if real_of_int items \<ge> real_of_int required * 0.6 then 0.5
                   else 0)
      in \<lparr>cr_check_id = sc_check_id check, cr_description = sc_description check,
          cr_passed = (items \<ge> required), cr_score = score,
          cr_detail = str_of_int items @ '' itens de lista (minimo: '' @ str_of_int required
                      @ '')''\<rparr>)"

definition replace_char :: "char \<Rightarrow> char \<Rightarrow> string \<Rightarrow> string" where
  "replace_char a b s = map (\<lambda>c. if c = a then b else c) s"

definition check_numeric_in_range :: "pylib \<Rightarrow> StructuralCheck \<Rightarrow> string \<Rightarrow> CheckResult" where
  "check_numeric_in_range py check txt =
     (let numbers = re_findall py (''['' @ bs @ ''d]+(?:[.,]'' @ bs @ ''d+)?'') [] txt;
          parsed = List.map_filter (\<lambda>n. py_float py (replace_char (CHR '','') (CHR ''.'') n))
                     numbers;
          low = sc_threshold check;
          high = (if sc_threshold_max check > 0 then sc_threshold_max check
                  else sc_threshold check * 1.1);
          found_in_range = list_ex (\<lambda>n. low \<le> n \<and> n \<le> high) parsed
      in \<lparr>cr_check_id = sc_check_id check, cr_description = sc_description check,
          cr_passed = found_in_range, cr_score = (if found_in_range then 1 else 0),
          cr_detail = ''Range ['' @ format_float py 2 low @ '', '' @ format_float py 2 high
                      @ ''], numeros encontrados: '' @ str_of_nat (length parsed)\<rparr>)"

text \<open>\<open>str.lower\<close> on the code points below 256.\<close>

definition lower_char :: "char \<Rightarrow> char" where
  "lower_char c =
     (let n = (of_char c :: nat)
      in if (65 \<le> n \<and> n \<le> 90) \<or> (192 \<le> n \<and> n \<le> 222 \<and> n \<noteq> 215)
         then char_of (n + 32) else c)"

definition lower :: "string \<Rightarrow> string" where
  "lower s = map lower_char s"

definition word_set :: "pylib \<Rightarrow> string \<Rightarrow> string set" where
  "word_set py txt =
     set (map lower (filter (\<lambda>w. length w > 3)
                       (re_findall py (bs @ ''b'' @ bs @ ''w+'' @ bs @ ''b'') [] txt)))"

definition jaccard :: "string set \<Rightarrow> string set \<Rightarrow> real" where
  "jaccard a b =
     (if a \<union> b \<noteq> {} then real (card (a \<inter> b)) / real (card (a \<union> b)) else 0)"

fun consecutive_similarities :: "string set list \<Rightarrow> real list" where
  "consecutive_similarities (a # b # rest) = jaccard a b # consecutive_similarities (b # rest)"
| "consecutive_similarities _ = []"

definition check_multi_round_consistency ::
  "pylib \<Rightarrow> StructuralCheck \<Rightarrow> string list \<Rightarrow> CheckResult" where
  "check_multi_round_consistency py check assistant_texts =
     (if length assistant_texts < 2 then
        \<lparr>cr_check_id = sc_check_id check, cr_description = sc_description check,
         cr_passed = True, cr_score = 1,
         cr_detail = ''Apenas 1 round, consistencia nao aplicavel''\<rparr>
      else
        (let word_sets = map (word_set py) assistant_texts;
             similarities = consecutive_similarities word_sets;
             avg_sim = (if similarities \<noteq> []
                        then sum_list similarities / real (length similarities) else 0);
             threshold = (if sc_threshold check > 0 then sc_threshold check else 0.15);
             score = (if avg_sim \<ge> threshold then 1
                      else if avg_sim \<ge> threshold * 0.5 then 0.5
                      else 0)
         in \<lparr>cr_check_id = sc_check_id check, cr_description = sc_description check,
             cr_passed = (avg_sim \<ge> threshold), cr_score = score,
             cr_detail = ''Jaccard medio: '' @ format_float py 3 avg_sim @ '' (threshold: ''
                         @ format_float py 3 threshold @ '')''\<rparr>))"

text \<open>\<open>s.split()\<close>: the maximal runs of characters that are not white space.\<close>

fun split_whitespace :: "string \<Rightarrow> string \<Rightarrow> string list" where
  "split_whitespace cur [] = (if cur = [] then [] else [cur])"
| "split_whitespace cur (c # cs) =
     (if py_isspace c
      then (if cur = [] then split_whitespace [] cs else cur # split_whitespace [] cs)
      else split_whitespace (cur @ [c]) cs)"

definition py_split :: "string \<Rightarrow> string list" where
  "py_split s = split_whitespace [] s"

definition check_word_count_range :: "StructuralCheck \<Rightarrow> string \<Rightarrow> CheckResult" where
  "check_word_count_range check txt =
     (let words = py_split txt;
          count = int (length words);
          min_words = py_trunc (sc_threshold check);
          max_words = (if sc_threshold_max check > 0 then py_trunc (sc_threshold_max check)
                       else 9999);
          in_range = (min_words \<le> count \<and> count \<le> max_words);
          score = (if in_range then 1
                   else if count < min_words
                           \<and> real_of_int count \<ge> fl (fl (real_of_int min_words) * fl 0.6)
                   then 0.5
                   else if count > max_words
                           \<and> real_of_int count \<le> fl (fl (real_of_int max_words) * fl 1.4)
                   then 0.5
                   else 0)
      in \<lparr>cr_check_id = sc_check_id check, cr_description = sc_description check,
          cr_passed = in_range, cr_score = score,
          cr_detail = str_of_int count @ '' palavras (range: '' @ str_of_int min_words @ ''-''
                      @ str_of_int max_words @ '')''\<rparr>)"

text \<open>The table of evaluators is a chain of comparisons of the check type; a type that
  is not in the table gives the diagnostic result.\<close>

definition evaluate_single_check ::
  "pylib \<Rightarrow> StructuralCheck \<Rightarrow> string list \<Rightarrow> string \<Rightarrow> CheckResult" where
  "evaluate_single_check py check assistant_texts all_text =
     (let target = get_target_text check assistant_texts all_text;
          check_type = sc_check_type check
      in if check_type \<notin> {''regex_present'', ''regex_absent'', ''min_lines'', ''min_items'',
                            ''numeric_in_range'', ''multi_round_consistency'',
                            ''word_count_range''}
         then \<lparr>cr_check_id = sc_check_id check, cr_description = sc_description check,
               cr_passed = False, cr_score = 0,
               cr_detail = ''Tipo desconhecido: '' @ check_type\<rparr>
         else if check_type = ''multi_round_consistency''
         then check_multi_round_consistency py check assistant_texts
         else if check_type = ''regex_present'' then check_regex_present py check target
         else if check_type = ''regex_absent'' then check_regex_absent py check target
         else if check_type = ''min_lines'' then check_min_lines check target
         else if check_type = ''min_items'' then check_min_items py check target
         else if check_type = ''numeric_in_range'' then check_numeric_in_range py check target
         else check_word_count_range check target)"

text \<open>The loop of \<open>evaluate_structural\<close>: the results, the total weight and the weighted
  score so far.\<close>

definition structural_step ::
  "pylib \<Rightarrow> string list \<Rightarrow> string \<Rightarrow> CheckResult list \<times> real \<times> real \<Rightarrow> StructuralCheck \<Rightarrow>
   CheckResult list \<times> real \<times> real" where
  "structural_step py assistant_texts all_text acc check =
     (case acc of (results, total_weight, weighted_score) \<Rightarrow>
        (let result = evaluate_single_check py check assistant_texts all_text
         in (results @ [result], total_weight + sc_weight check,
             weighted_score + cr_score result * sc_weight check)))"

definition evaluate_structural :: "pylib \<Rightarrow> StructuralCheck list \<Rightarrow> msg list \<Rightarrow> StructuralScore" where
  "evaluate_structural py checks rounds =
     (if checks = [] then
        \<lparr>ss_normalized = 1, ss_details = [], ss_total_weight = 0, ss_weighted_score = 0\<rparr>
      else
        (let assistant_texts = extract_assistant_texts rounds;
             all_text = py_join nl assistant_texts
         in case foldl (structural_step py assistant_texts all_text) ([], 0, 0) checks of
              (results, total_weight, weighted_score) \<Rightarrow>
                (let normalized = (if total_weight > 0 then weighted_score / total_weight else 0);
                     normalized1 = max 0 (min 1 normalized)
                 in \<lparr>ss_normalized = normalized1, ss_details = results,
                     ss_total_weight = total_weight, ss_weighted_score = weighted_score\<rparr>)))"

section \<open>Layer 2: reference checks (evaluators/reference.py)\<close>

text \<open>The patterns below are the raw strings of the source; \<open>bs\<close> is the backslash,
  \<open>CHR 0x22\<close> the double quote and \<open>CHR 0x27\<close> the single quote.\<close>

definition FAKE_CITATION_PATTERNS :: "string list" where
  "FAKE_CITATION_PATTERNS =
     [''doi:'' @ bs @ ''s*10'' @ bs @ ''.'' @ bs @ ''d{4,}/[a-z]{2,}'' @ bs @ ''.'' @ bs
        @ ''d{4}'' @ bs @ ''.'' @ bs @ ''d{6,}'',
      ''https?://(?:www'' @ bs @ ''.)?(?:journal|research|science)'' @ bs @ ''w+'' @ bs
        @ ''.(?:com|org)/'' @ bs @ ''w{8,}'',
      ''(?<!'' @ bs @ ''w)[A-Z][a-z]+'' @ bs @ ''s+et'' @ bs @ ''s+al'' @ bs @ ''.'' @ bs
        @ ''s*'' @ bs @ ''('' @ bs @ ''d{4}'' @ bs @ '')(?!'' @ bs @ ''s*[,;.]?'' @ bs
        @ ''s*['' @ bs @ [CHR 0x22, CHR 0x27] @ ''])'',
      ''pp?'' @ bs @ ''.'' @ bs @ ''s*'' @ bs @ ''d{4,}-'' @ bs @ ''d{4,}'',
      ''arXiv:'' @ bs @ ''d{4}'' @ bs @ ''.'' @ bs @ ''d{6,}'']"

record ReferenceScore =
  rs_normalized :: real
  rs_sub_scores :: "(string \<times> real) list"
  rs_hallucination_flags :: "string list"

definition extract_full_response :: "msg list \<Rightarrow> string" where
  "extract_full_response rounds =
     py_join nl (map msg_content (filter (\<lambda>m. msg_role m = ''assistant'') rounds))"

fun starts_with :: "string \<Rightarrow> string \<Rightarrow> bool" where
  "starts_with [] s = True"
| "starts_with (c # cs) [] = False"
| "starts_with (c # cs) (d # ds) = (c = d \<and> starts_with cs ds)"

text \<open>\<open>needle in s\<close> for strings.\<close>

fun contains :: "string \<Rightarrow> string \<Rightarrow> bool" where
  "contains needle [] = (needle = [])"
| "contains needle (c # cs) = (starts_with needle (c # cs) \<or> contains needle cs)"

definition keyword_coverage :: "string \<Rightarrow> string list \<Rightarrow> real" where
  "keyword_coverage txt keywords =
     (if keywords = [] then 1
      else let text_lower = lower txt;
               found = length (filter (\<lambda>kw. contains (lower kw) text_lower) keywords)
           in real found / real (length keywords))"

definition anti_keyword_absence :: "pylib \<Rightarrow> string \<Rightarrow> string list \<Rightarrow> real" where
  "anti_keyword_absence py txt anti_keywords =
     (if anti_keywords = [] then 1
      else let text_lower = lower txt;
               violations = length (filter (\<lambda>pattern.
                  (case re_search py pattern [IGNORECASE] text_lower of
                     Inr m \<Rightarrow> m \<noteq> None
                   | Inl e \<Rightarrow> contains (lower pattern) text_lower)) anti_keywords);
               penalty = real violations / real (length anti_keywords)
           in max 0 (1 - penalty))"

definition remove_char :: "char \<Rightarrow> string \<Rightarrow> string" where
  "remove_char a s = filter (\<lambda>c. c \<noteq> a) s"

text \<open>\<open>s.rindex(c)\<close> for a character that occurs in \<open>s\<close>.\<close>

definition rindex :: "char \<Rightarrow> string \<Rightarrow> nat" where
  "rindex a s = length s - Suc (length (takeWhile (\<lambda>c. c \<noteq> a) (rev s)))"

definition multipliers :: "(string \<times> real) list" where
  "multipliers =
     [(''bilh'', 1000000000), (''billion'', 1000000000),
      (''trilh'', 1000000000000), (''trillion'', 1000000000000),
      (''milh'', 1000000), (''million'', 1000000),
      (''mil'', 1000), (''thousand'', 1000)]"

text \<open>The separators of a matched number are normalized before \<open>float()\<close> reads it.\<close>

definition clean_number :: "string \<Rightarrow> string" where
  "clean_number num_str =
     (let cleaned = remove_char (CHR '' '') num_str
      in if CHR '','' \<in> set cleaned \<and> CHR ''.'' \<in> set cleaned then
           (if rindex (CHR '','') cleaned > rindex (CHR ''.'') cleaned
            then replace_char (CHR '','') (CHR ''.'') (remove_char (CHR ''.'') cleaned)
            else remove_char (CHR '','') cleaned)
         else if CHR '','' \<in> set cleaned then
           (let parts = split_on (CHR '','') cleaned
            in if length (last parts) = 3 \<and> length parts > 1
               then remove_char (CHR '','') cleaned
               else replace_char (CHR '','') (CHR ''.'') cleaned)
         else if CHR ''.'' \<in> set cleaned then
           (let parts = split_on (CHR ''.'') cleaned
            in if list_all (\<lambda>p. length p = 3) (tl parts) \<and> length parts > 2
               then remove_char (CHR ''.'') cleaned
               else cleaned)
         else cleaned)"

definition apply_multiplier :: "string \<Rightarrow> real \<Rightarrow> real" where
  "apply_multiplier suffix v =
     (let suffix_lower = (if suffix \<noteq> [] then take 4 (lower suffix) else [])
      in case find (\<lambda>(key, mult). starts_with (take 4 key) suffix_lower) multipliers of
           Some (key, mult) \<Rightarrow> v * mult
         | None \<Rightarrow> v)"

definition extract_numbers :: "pylib \<Rightarrow> string \<Rightarrow> real list" where
  "extract_numbers py txt =
     (let raw_matches =
            re_findall2 py
              (''('' @ bs @ ''d['' @ bs @ ''d.,]*'' @ bs @ ''d|'' @ bs @ ''d+)'' @ bs
               @ ''s*(?:(bilh|trilh|milh|billion|trillion|million|thousand|mil))?'')
              [IGNORECASE] txt
      in List.map_filter (\<lambda>(num_str, suffix).
           (case py_float py (clean_number num_str) of
              None \<Rightarrow> None
            | Some v \<Rightarrow> Some (apply_multiplier suffix v))) raw_matches)"

definition numeric_accuracy :: "pylib \<Rightarrow> string \<Rightarrow> (string \<times> real \<times> real) list \<Rightarrow> real" where
  "numeric_accuracy py txt ranges =
     (if ranges = [] then 1
      else let numbers = extract_numbers py txt;
               satisfied = length (filter (\<lambda>(range_name, low, high).
                             list_ex (\<lambda>n. low \<le> n \<and> n \<le> high) numbers) ranges)
           in real satisfied / real (length ranges))"

fun trigrams_of :: "string \<Rightarrow> string list" where
  "trigrams_of (a # b # c # rest) = [a, b, c] # trigrams_of (b # c # rest)"
| "trigrams_of _ = []"

definition get_trigrams :: "pylib \<Rightarrow> string \<Rightarrow> string set" where
  "get_trigrams py txt =
     (let words = re_findall py (bs @ ''w+'') [] txt;
          joined = py_join '' '' words
      in set (trigrams_of joined))"

definition text_similarity :: "pylib \<Rightarrow> string \<Rightarrow> string \<Rightarrow> real" where
  "text_similarity py response ground_truth =
     (let resp_trigrams = get_trigrams py (lower response);
          truth_trigrams = get_trigrams py (lower ground_truth)
      in if resp_trigrams = {} \<or> truth_trigrams = {} then 0
         else if resp_trigrams \<union> truth_trigrams \<noteq> {}
         then real (card (resp_trigrams \<inter> truth_trigrams))
              / real (card (resp_trigrams \<union> truth_trigrams))
         else 0)"

definition anti_hallucination_check :: "pylib \<Rightarrow> string \<Rightarrow> real \<times> string list" where
  "anti_hallucination_check py txt =
     (let flags = concat (map (\<lambda>pattern.
                    map (\<lambda>m. ''Citacao suspeita: '' @ take 80 m)
                      (re_findall py pattern [IGNORECASE] txt)) FAKE_CITATION_PATTERNS)
      in if flags = [] then (1, [])
         else let penalty = min (real (length flags) * 0.15) 1
              in (max 0 (1 - penalty), flags))"

text \<open>\<open>sub_scores\<close> is a dictionary that receives each key at most once: its values are
  the second components of the list. \<open>active_scores\<close> counts the sub-checks that apply.\<close>

definition evaluate_reference :: "pylib \<Rightarrow> TestDef \<Rightarrow> msg list \<Rightarrow> ReferenceScore" where
  "evaluate_reference py test rounds =
     (let full_text = extract_full_response rounds
      in if strip full_text = [] then
           \<lparr>rs_normalized = 0, rs_sub_scores = [], rs_hallucination_flags = []\<rparr>
         else
           (let (sub_scores1, active_scores1) =
                  (if td_reference_keywords test \<noteq> []
                   then ([(''keyword_coverage'',
                           keyword_coverage full_text (td_reference_keywords test))], 1 :: nat)
                   else ([], 0));
                (sub_scores2, active_scores2) =
                  (if td_reference_anti_keywords test \<noteq> []
                   then (sub_scores1 @ [(''anti_keyword_absence'',
                           anti_keyword_absence py full_text (td_reference_anti_keywords test))],
                         active_scores1 + 1)
                   else (sub_scores1, active_scores1));
                (sub_scores3, active_scores3) =
                  (if td_reference_numeric_ranges test \<noteq> []
                   then (sub_scores2 @ [(''numeric_accuracy'',
                           numeric_accuracy py full_text (td_reference_numeric_ranges test))],
                         active_scores2 + 1)
                   else (sub_scores2, active_scores2));
                (sub_scores4, active_scores4) =
                  (if truthy (td_ground_truth test)
                   then (sub_scores3 @ [(''text_similarity'',
                           text_similarity py full_text (the (td_ground_truth test)))],
                         active_scores3 + 1)
                   else (sub_scores3, active_scores3));
                (sub_scores5, active_scores5, hallucination_flags) =
                  (if td_anti_hallucination test
                   then (case anti_hallucination_check py full_text of
                           (hal_score, flags) \<Rightarrow>
                             (sub_scores4 @ [(''anti_hallucination'', hal_score)],
                              active_scores4 + 1, flags))
                   else (sub_scores4, active_scores4, []));
                normalized = (if active_scores5 > 0
                              then sum_list (map snd sub_scores5) / real active_scores5
                              else 1);
                normalized1 = max 0 (min 1 normalized)
            in \<lparr>rs_normalized = normalized1, rs_sub_scores = sub_scores5,
                rs_hallucination_flags = hallucination_flags\<rparr>))"

section \<open>Statistics (analysis/statistics.py)\<close>



text \<open>\<open>round(x, n)\<close>: the exact value of \<open>x\<close> rounded to \<open>n\<close> decimals, a tie to the
  even digit (\<open>py_round_to\<close>); for a float the result is the double nearest to that
  decimal number (\<open>round_float\<close>).\<close>

definition py_round_to :: "nat \<Rightarrow> real \<Rightarrow> real" where
  "py_round_to n x = real_of_int (py_round (x * 10 ^ n)) / 10 ^ n"

definition round_float :: "nat \<Rightarrow> real \<Rightarrow> real" where
  "round_float n x = fl (py_round_to n x)"

text \<open>The values of the variables \<open>mean\<close> and \<open>std\<close> of \<open>mean_and_std\<close> before they
  are rounded to 4 decimals. \<open>d ** 2\<close> is the square rounded to a double,
  \<open>math.sqrt\<close> the root rounded to a double.\<close>

definition computed_mean :: "real list \<Rightarrow> real" where
  "computed_mean values = fl (fsum values / fl (real (length values)))"

definition computed_std :: "real list \<Rightarrow> real" where
  "computed_std values =
     (let mean = computed_mean values;
          variance = fl (fsum (map (\<lambda>x. fl ((fl (x - mean)) ^ 2)) values)
                         / fl (real (length values - 1)))
      in fl (sqrt variance))"

definition mean_and_std :: "real list \<Rightarrow> real \<times> real" where
  "mean_and_std values =
     (if values = [] then (0, 0)
      else let n = length values;
               mean = computed_mean values
           in if n < 2 then (mean, 0)
              else let std = computed_std values
                   in (round_float 4 mean, round_float 4 std))"




section \<open>The orchestrator (\_\_main\_\_.py)\<close>

text \<open>The entries of \<open>structural_details\<close> and the dictionary \<open>judge_audit\<close> of a
  result.\<close>

record detail_entry =
  de_id :: string
  de_passed :: bool
  de_score :: real
  de_detail :: string

record audit_entry =
  ae_primary_judge :: string
  ae_primary_score :: int
  ae_tiebreak_judge :: "string option"
  ae_tiebreak_score :: "int option"
  ae_final_source :: string

text \<open>The dictionary \<open>result\<close> of a run. The four scores are set on every path that
  returns; a key that only some paths set is an option. The keys \<open>timestamp\<close> and
  \<open>exec_seconds\<close> are readings of the clock and are left out.\<close>

record EvalResult =
  er_test_id :: string
  er_model :: string
  er_rounds :: "msg list"
  er_error :: "bool option"
  er_structural_score :: real
  er_structural_details :: "detail_entry list option"
  er_reference_score :: real
  er_reference_sub_scores :: "(string \<times> real) list option"
  er_hallucination_flags :: "string list option"
  er_judge_score :: real
  er_judge_raw :: "int option"
  er_judge_reason :: "string option"
  er_judge_provider :: "string option"
  er_tiebreak_used :: "bool option"
  er_judge_audit :: "audit_entry option"
  er_final_score :: real
  er_seed :: "nat option"

text \<open>The execution of the prompts: one query for a single prompt (\<open>prompts[0]\<close> raises
  on an empty list), the multi-round exchange otherwise. An exception of the provider is
  not caught.\<close>

definition execute :: "'w provider \<Rightarrow> TestDef \<Rightarrow> 'w \<Rightarrow> (py_error + msg list) \<times> 'w" where
  "execute p test w =
     (if length (td_prompts test) > 1 then
        (case prov_query_multi_round p (td_prompts test) w of
           (Inl e, w1) \<Rightarrow> (Inl (ProviderFailure e), w1)
         | (Inr rounds, w1) \<Rightarrow> (Inr rounds, w1))
      else
        (case td_prompts test of
           [] \<Rightarrow> (Inl IndexError, w)
         | prompt # _ \<Rightarrow>
             (case prov_query p prompt None 2048 0.3 w of
                (Inl e, w1) \<Rightarrow> (Inl (ProviderFailure e), w1)
              | (Inr response, w1) \<Rightarrow> (Inr [user_msg prompt, assistant_msg response], w1))))"

definition has_error :: "msg list \<Rightarrow> bool" where
  "has_error rounds =
     list_ex (\<lambda>m. truthy (msg_error m)) (filter (\<lambda>m. msg_role m = ''assistant'') rounds)"

definition run_single_evaluation ::
  "pylib \<Rightarrow> TestDef \<Rightarrow> 'w provider \<Rightarrow> (string \<times> 'w provider) list \<Rightarrow> bool \<Rightarrow> 'w \<Rightarrow>
   (py_error + EvalResult) \<times> 'w" where
  "run_single_evaluation py test p available_providers enable_tiebreak w =
     (case execute p test w of
        (Inl e, w1) \<Rightarrow> (Inl e, w1)
      | (Inr rounds, w1) \<Rightarrow>
          if has_error rounds then
            (Inr \<lparr>er_test_id = td_test_id test, er_model = prov_provider_id p,
                  er_rounds = rounds, er_error = Some True,
                  er_structural_score = 0, er_structural_details = None,
                  er_reference_score = 0, er_reference_sub_scores = None,
                  er_hallucination_flags = None,
                  er_judge_score = 0, er_judge_raw = None, er_judge_reason = None,
                  er_judge_provider = None, er_tiebreak_used = None, er_judge_audit = None,
                  er_final_score = 0, er_seed = None\<rparr>, w1)
          else
            (let structural = evaluate_structural py (td_structural_checks test) rounds;
                 reference = evaluate_reference py test rounds
             in case evaluate_judge py (td_name test) (td_category test) (td_prompts test)
                       rounds (td_judge_rubric test) (prov_provider_id p) available_providers
                       (ss_normalized structural) (rs_normalized reference) enable_tiebreak w1 of
                  (Inl e, w2) \<Rightarrow> (Inl e, w2)
                | (Inr (judge_result, judge_audit), w2) \<Rightarrow>
                    (let final = (ss_normalized structural * 1 + rs_normalized reference * 1
                                  + jr_normalized judge_result * 2) / 4
                     in (Inr \<lparr>er_test_id = td_test_id test, er_model = prov_provider_id p,
                              er_rounds = rounds, er_error = None,
                              er_structural_score = ss_normalized structural,
                              er_structural_details =
                                Some (map (\<lambda>d. \<lparr>de_id = cr_check_id d, de_passed = cr_passed d,
                                                 de_score = cr_score d, de_detail = cr_detail d\<rparr>)
                                        (ss_details structural)),
                              er_reference_score = rs_normalized reference,
                              er_reference_sub_scores = Some (rs_sub_scores reference),
                              er_hallucination_flags = Some (rs_hallucination_flags reference),
                              er_judge_score = jr_normalized judge_result,
                              er_judge_raw = Some (jr_score_raw judge_result),
                              er_judge_reason = Some (jr_reason judge_result),
                              er_judge_provider = Some (jr_judge_provider_id judge_result),
                              er_tiebreak_used = Some (jr_tiebreak_used judge_result),
                              er_judge_audit =
                                Some \<lparr>ae_primary_judge = ja_primary_judge judge_audit,
                                      ae_primary_score = ja_primary_score judge_audit,
                                      ae_tiebreak_judge = ja_tiebreak_judge judge_audit,
                                      ae_tiebreak_score = ja_tiebreak_score judge_audit,
                                      ae_final_source = ja_final_source judge_audit\<rparr>,
                              er_final_score = py_round_to 4 final, er_seed = None\<rparr>, w2))))"

text \<open>What the main loop accumulates: the log of the evaluations, the score matrix and
  the table of judge pairs.\<close>

record loop_state =
  ls_all_evaluations :: "EvalResult list"
  ls_score_matrix :: "string \<rightharpoonup> (string \<rightharpoonup> real list)"
  ls_judge_pairs :: "string \<rightharpoonup> (int \<times> int) list"

definition initial_state :: loop_state where
  "initial_state =
     \<lparr>ls_all_evaluations = [], ls_score_matrix = Map.empty, ls_judge_pairs = Map.empty\<rparr>"

text \<open>The body of the loop after \<open>run_single_evaluation\<close> has returned.\<close>

definition accumulate :: "loop_state \<Rightarrow> nat \<Rightarrow> string \<Rightarrow> string \<Rightarrow> EvalResult \<Rightarrow> loop_state" where
  "accumulate st seed test_id provider_id result0 =
     (let result = result0\<lparr>er_seed := Some seed\<rparr>;
          all_evaluations = ls_all_evaluations st @ [result];
          row = (case ls_score_matrix st provider_id of None \<Rightarrow> Map.empty | Some r \<Rightarrow> r);
          cell = (case row test_id of None \<Rightarrow> [] | Some c \<Rightarrow> c);
          score_matrix = (ls_score_matrix st)
                           (provider_id \<mapsto> row(test_id \<mapsto> cell @ [er_final_score result]));
          judge_id = (case er_judge_provider result of None \<Rightarrow> [] | Some j \<Rightarrow> j);
          judge_raw = (case er_judge_raw result of None \<Rightarrow> 0 | Some v \<Rightarrow> v);
          judge_pairs =
            (if judge_id \<noteq> [] \<and> judge_id \<noteq> provider_id
             then (let pair_key = provider_id @ ''_vs_'' @ judge_id;
                       pairs = (case ls_judge_pairs st pair_key of None \<Rightarrow> [] | Some ps \<Rightarrow> ps)
                   in (ls_judge_pairs st)(pair_key \<mapsto> pairs @ [(judge_raw, judge_raw)]))
             else ls_judge_pairs st)
      in \<lparr>ls_all_evaluations = all_evaluations, ls_score_matrix = score_matrix,
          ls_judge_pairs = judge_pairs\<rparr>)"

text \<open>The combinations in the order of the nested loops: seed, then test, then
  provider.\<close>

definition run_matrix ::
  "nat \<Rightarrow> (string \<times> TestDef) list \<Rightarrow> (string \<times> 'w provider) list \<Rightarrow>
   (nat \<times> (string \<times> TestDef) \<times> (string \<times> 'w provider)) list" where
  "run_matrix seeds tests providers =
     concat (map (\<lambda>seed. concat (map (\<lambda>t. map (\<lambda>p. (seed, t, p)) providers) tests))
               [0 ..< seeds])"

text \<open>The main loop over the combinations that are left. An exception that
  \<open>run_single_evaluation\<close> raises ends the loop.\<close>

fun main_loop ::
  "pylib \<Rightarrow> (string \<times> 'w provider) list \<Rightarrow> bool \<Rightarrow>
   (nat \<times> (string \<times> TestDef) \<times> (string \<times> 'w provider)) list \<Rightarrow> loop_state \<Rightarrow> 'w \<Rightarrow>
   (py_error + loop_state) \<times> 'w" where
  "main_loop py providers enable_tiebreak [] st w = (Inr st, w)"
| "main_loop py providers enable_tiebreak ((seed, (test_id, test), (provider_id, p)) # rest) st w =
     (case run_single_evaluation py test p providers enable_tiebreak w of
        (Inl e, w1) \<Rightarrow> (Inl e, w1)
      | (Inr result, w1) \<Rightarrow>
          main_loop py providers enable_tiebreak rest
            (accumulate st seed test_id provider_id result) w1)"

section \<open>The claims in the words of the specification\<close>

text \<open>The resolution of a tiebreak as the specification states it, as a function of the
  primary score, the tiebreak score and the two normalized layer scores: the final raw
  score and the label. \<open>round\<close> is Python's.\<close>

definition resolution_spec :: "int \<Rightarrow> int \<Rightarrow> real \<Rightarrow> real \<Rightarrow> int \<times> string" where
  "resolution_spec primary_score tiebreak_score structural_normalized reference_normalized =
     (if \<bar>tiebreak_score - primary_score\<bar> \<le> 1
      then (primary_score, ''primary (tiebreak confirmed)'')
      else if \<bar>tiebreak_score
                - py_round (((structural_normalized + reference_normalized) / 2) * 3)\<bar> \<le> 1
      then (py_round (real_of_int (primary_score + tiebreak_score) / 2),
            ''average (tiebreak sided with layers)'')
      else (py_round (real_of_int (primary_score + tiebreak_score) / 2),
            ''average (no consensus)''))"

text \<open>The tiers of the minimum-lines check as the specification states them, as a
  function of the threshold and the number of lines that are not blank: the score and
  the flag \<open>passed\<close>.\<close>

definition min_lines_spec :: "real \<Rightarrow> real \<Rightarrow> real \<times> bool" where
  "min_lines_spec threshold count =
     (if count \<ge> threshold then (1, True)
      else if count \<ge> 0.6 * threshold then (0.5, False)
      else (0, False))"

text \<open>The number of lines of a text that are not blank, as the specification counts
  them: the lines are the fields between the newline characters, and a line is blank when
  it has no character other than white space.\<close>

definition not_blank :: "string \<Rightarrow> bool" where
  "not_blank l = list_ex (\<lambda>c. \<not> py_isspace c) l"

definition count_nonblank_lines :: "string \<Rightarrow> nat" where
  "count_nonblank_lines txt = length (filter not_blank (split_on (CHR 0x0A) txt))"

text \<open>The mean and the sample standard deviation (with Bessel's correction) of a sample,
  as numbers: no rounding.\<close>

definition sample_mean :: "real list \<Rightarrow> real" where
  "sample_mean values = sum_list values / real (length values)"

definition sample_std :: "real list \<Rightarrow> real" where
  "sample_std values =
     sqrt (sum_list (map (\<lambda>x. (x - sample_mean values) ^ 2) values)
           / real (length values - 1))"

text \<open>None of the five reference sub-checks applies to a test.\<close>

definition no_sub_checks :: "TestDef \<Rightarrow> bool" where
  "no_sub_checks test =
     (td_reference_keywords test = [] \<and> td_reference_anti_keywords test = [] \<and>
      td_reference_numeric_ranges test = [] \<and> \<not> truthy (td_ground_truth test) \<and>
      \<not> td_anti_hallucination test)"

text \<open>Every pair of every cell of the table of judge pairs has equal components.\<close>

definition pairs_equal :: "(string \<rightharpoonup> (int \<times> int) list) \<Rightarrow> bool" where
  "pairs_equal judge_pairs =
     (\<forall>key pairs a b. judge_pairs key = Some pairs \<longrightarrow> (a, b) \<in> set pairs \<longrightarrow> a = b)"

section \<open>Example inputs\<close>

text \<open>The behaviour of Python's library on the strings of the examples below.\<close>

definition example_py :: pylib where
  "example_py =
     \<lparr>re_search = (\<lambda>pat flags txt.
        if pat = ''SCORE:'' @ bs @ ''s*('' @ bs @ ''d)'' \<and> txt = ''SCORE: 3''
        then Inr (Some (''SCORE: 3'', [''3''])) else Inr None),
      re_match = (\<lambda>pat flags txt. None),
      re_findall = (\<lambda>pat flags txt. []),
      re_findall2 = (\<lambda>pat flags txt. []),
      py_int = (\<lambda>s. if s = ''3'' then Inr 3 else Inl ''invalid literal for int()''),
      py_float = (\<lambda>s. None),
      format_float = (\<lambda>digits x. [])\<rparr>"

text \<open>A provider of the base class that gives the same reply to every query.\<close>

definition replying :: "string \<Rightarrow> string \<Rightarrow> string + ProviderResponse \<Rightarrow> unit provider" where
  "replying pid name reply =
     \<lparr>prov_provider_id = pid, prov_display_name = name,
      prov_query = (\<lambda>prompt system max_tokens temperature w. (reply, w)),
      prov_query_multi_round =
        base_query_multi_round (\<lambda>prompt system max_tokens temperature w. (reply, w))\<rparr>"

definition answer :: "string \<Rightarrow> string + ProviderResponse" where
  "answer t = Inr \<lparr>resp_text = t, resp_model = ''m'', resp_elapsed_seconds = 0,
                  resp_input_tokens = 0, resp_output_tokens = 0, resp_error = None\<rparr>"

definition failure :: "string \<Rightarrow> string + ProviderResponse" where
  "failure e = Inr \<lparr>resp_text = [], resp_model = ''m'', resp_elapsed_seconds = 0,
                   resp_input_tokens = 0, resp_output_tokens = 0, resp_error = Some e\<rparr>"

definition claude :: "unit provider" where
  "claude = replying ''claude'' ''Claude'' (answer ''hello'')"

definition gpt :: "unit provider" where
  "gpt = replying ''gpt'' ''GPT'' (failure ''timeout'')"

definition gemini :: "unit provider" where
  "gemini = replying ''gemini'' ''Gemini'' (answer ''SCORE: 3'')"

definition one_provider :: "(string \<times> unit provider) list" where
  "one_provider = [(''claude'', claude)]"

definition two_providers :: "(string \<times> unit provider) list" where
  "two_providers = [(''claude'', claude), (''gpt'', gpt)]"

definition three_providers :: "(string \<times> unit provider) list" where
  "three_providers = [(''claude'', claude), (''gpt'', gpt), (''gemini'', gemini)]"

text \<open>A test with one prompt, no structural check and no reference sub-check.\<close>

definition example_test :: TestDef where
  "example_test =
     \<lparr>td_test_id = ''t1'', td_name = ''Example'', td_category = ''factual-grounding'',
      td_difficulty = ''easy'', td_language = ''en'', td_prompts = [''What is 2 + 2?''],
      td_structural_checks = [], td_ground_truth = None, td_reference_keywords = [],
      td_reference_anti_keywords = [], td_reference_numeric_ranges = [],
      td_judge_rubric = ''Score the answer.'', td_anti_hallucination = False,
      td_domain = ''general'', td_tags = []\<rparr>"

text \<open>The conversations that the three providers produce on the test.\<close>

definition rounds_with :: "string \<Rightarrow> string option \<Rightarrow> msg list" where
  "rounds_with content err =
     [user_msg ''What is 2 + 2?'',
      \<lparr>msg_role = ''assistant'', msg_content = content, msg_elapsed = Some 0,
       msg_model = Some ''m'', msg_error = err\<rparr>]"

definition good_rounds :: "msg list" where
  "good_rounds = rounds_with ''hello'' None"

definition failed_rounds :: "msg list" where
  "failed_rounds = rounds_with [] (Some ''timeout'')"

definition gemini_rounds :: "msg list" where
  "gemini_rounds = rounds_with ''SCORE: 3'' None"

definition empty_rounds :: "msg list" where
  "empty_rounds = rounds_with [] None"

text \<open>A conversation of two rounds.\<close>

definition two_reply_rounds :: "msg list" where
  "two_reply_rounds =
     [user_msg ''first question'',
      \<lparr>msg_role = ''assistant'', msg_content = ''alpha'', msg_elapsed = Some 0,
       msg_model = Some ''m'', msg_error = None\<rparr>,
      user_msg ''second question'',
      \<lparr>msg_role = ''assistant'', msg_content = ''beta'', msg_elapsed = Some 0,
       msg_model = Some ''m'', msg_error = None\<rparr>]"

text \<open>The outcome of judging claude among the two providers: gpt judges, fails and so
  scores 0; no third provider is left for a tiebreak.\<close>

definition two_result :: JudgeResult where
  "two_result =
     \<lparr>jr_score_raw = 0, jr_normalized = 0, jr_reason = ''Judge error: timeout'',
      jr_judge_model = ''GPT'', jr_judge_provider_id = ''gpt'', jr_tiebreak_used = False,
      jr_tiebreak_details = []\<rparr>"

definition two_audit :: JudgeAudit where
  "two_audit =
     \<lparr>ja_primary_judge = ''gpt'', ja_primary_score = 0,
      ja_primary_reason = ''Judge error: timeout'', ja_tiebreak_judge = None,
      ja_tiebreak_score = None, ja_tiebreak_reason = None, ja_final_source = ''primary''\<rparr>"

text \<open>The outcome among the three providers: gpt scores 0, gemini breaks the tie with 3.\<close>

definition three_result :: JudgeResult where
  "three_result =
     \<lparr>jr_score_raw = 2, jr_normalized = 2 / 3, jr_reason = ''Judge error: timeout'',
      jr_judge_model = ''GPT'', jr_judge_provider_id = ''gpt'', jr_tiebreak_used = True,
      jr_tiebreak_details = ''TB judge=gemini, score=3''\<rparr>"

definition three_audit :: JudgeAudit where
  "three_audit =
     \<lparr>ja_primary_judge = ''gpt'', ja_primary_score = 0,
      ja_primary_reason = ''Judge error: timeout'', ja_tiebreak_judge = Some ''gemini'',
      ja_tiebreak_score = Some 3, ja_tiebreak_reason = Some [],
      ja_final_source = ''average (tiebreak sided with layers)''\<rparr>"

text \<open>The outcome of judging gemini among the three: claude's reply has no score and
  parses to 0, gpt breaks the tie, fails and scores 0 as well.\<close>

definition gemini_result :: JudgeResult where
  "gemini_result =
     \<lparr>jr_score_raw = 0, jr_normalized = 0, jr_reason = ''(parse fallback) hello'',
      jr_judge_model = ''Claude'', jr_judge_provider_id = ''claude'', jr_tiebreak_used = True,
      jr_tiebreak_details = ''TB judge=gpt, score=0''\<rparr>"

definition gemini_audit :: JudgeAudit where
  "gemini_audit =
     \<lparr>ja_primary_judge = ''claude'', ja_primary_score = 0,
      ja_primary_reason = ''(parse fallback) hello'', ja_tiebreak_judge = Some ''gpt'',
      ja_tiebreak_score = Some 0, ja_tiebreak_reason = Some ''Judge error: timeout'',
      ja_final_source = ''primary (tiebreak confirmed)''\<rparr>"

definition no_judge_audit :: JudgeAudit where
  "no_judge_audit =
     \<lparr>ja_primary_judge = ''none'', ja_primary_score = 0,
      ja_primary_reason = ''No judge available'', ja_tiebreak_judge = None,
      ja_tiebreak_score = None, ja_tiebreak_reason = None, ja_final_source = ''primary''\<rparr>"

text \<open>The result of a run whose execution carries an error.\<close>

definition error_result :: "string \<Rightarrow> string \<Rightarrow> msg list \<Rightarrow> EvalResult" where
  "error_result test_id model rounds =
     \<lparr>er_test_id = test_id, er_model = model, er_rounds = rounds, er_error = Some True,
      er_structural_score = 0, er_structural_details = None,
      er_reference_score = 0, er_reference_sub_scores = None, er_hallucination_flags = None,
      er_judge_score = 0, er_judge_raw = None, er_judge_reason = None,
      er_judge_provider = None, er_tiebreak_used = None, er_judge_audit = None,
      er_final_score = 0, er_seed = None\<rparr>"

text \<open>The result of a run of the example test that was judged.\<close>

definition judged_result ::
  "string \<Rightarrow> msg list \<Rightarrow> JudgeResult \<Rightarrow> JudgeAudit \<Rightarrow> real \<Rightarrow> EvalResult" where
  "judged_result model rounds judge_result judge_audit final =
     \<lparr>er_test_id = ''t1'', er_model = model, er_rounds = rounds, er_error = None,
      er_structural_score = 1, er_structural_details = Some [],
      er_reference_score = 1, er_reference_sub_scores = Some [],
      er_hallucination_flags = Some [],
      er_judge_score = jr_normalized judge_result,
      er_judge_raw = Some (jr_score_raw judge_result),
      er_judge_reason = Some (jr_reason judge_result),
      er_judge_provider = Some (jr_judge_provider_id judge_result),
      er_tiebreak_used = Some (jr_tiebreak_used judge_result),
      er_judge_audit =
        Some \<lparr>ae_primary_judge = ja_primary_judge judge_audit,
              ae_primary_score = ja_primary_score judge_audit,
              ae_tiebreak_judge = ja_tiebreak_judge judge_audit,
              ae_tiebreak_score = ja_tiebreak_score judge_audit,
              ae_final_source = ja_final_source judge_audit\<rparr>,
      er_final_score = final, er_seed = None\<rparr>"

text \<open>Structural checks and texts for the examples of the first layer.\<close>

definition example_check :: "string \<Rightarrow> real \<Rightarrow> real \<Rightarrow> int \<Rightarrow> StructuralCheck" where
  "example_check check_type threshold weight target_round =
     \<lparr>sc_check_id = ''c1'', sc_description = ''an example check'', sc_check_type = check_type,
      sc_pattern = [], sc_threshold = threshold, sc_threshold_max = 0, sc_weight = weight,
      sc_target_round = target_round\<rparr>"

text \<open>Five times the double \<open>527629414362.3982\<close>.\<close>

definition constant_sample :: "real list" where
  "constant_sample = replicate 5 (2161170081228383 / 4096)"

definition three_lines :: string where
  "three_lines = ''alpha'' @ nl @ ''  '' @ nl @ ''beta'' @ nl @ ''gamma'' @ nl"

definition two_lines :: string where
  "two_lines = ''alpha'' @ nl @ ''beta''"

section \<open>The rounding of doubles\<close>

lemma py_round_of_int: "py_round (real_of_int k) = k"
  unfolding py_round_def Let_def by (simp only: floor_of_int) simp

lemma pow2_powr: "pow2 e = 2 powr (real_of_int e)"
proof (cases "0 \<le> e")
  case True
  then have "2 powr (real_of_int e) = (2::real) ^ nat e"
    by (simp add: powr_real_of_int)
  with True show ?thesis by (simp add: pow2_def)
next
  case False
  then have "2 powr (real_of_int e) = inverse ((2::real) ^ nat (- e))"
    by (simp add: powr_real_of_int)
  with False show ?thesis by (simp add: pow2_def inverse_eq_divide)
qed

lemma exponent_eq:
  assumes "pow2 e \<le> \<bar>x\<bar>" "\<bar>x\<bar> < pow2 (e + 1)" "- 1022 \<le> e"
  shows "exponent x = e"
proof -
  have pos: "0 < \<bar>x\<bar>"
    using assms(1) by (simp add: pow2_powr) (smt (verit) powr_gt_zero)
  have "\<lfloor>log 2 \<bar>x\<bar>\<rfloor> = e"
    using assms(1,2) pos by (simp add: floor_log_eq_powr_iff pow2_powr)
  with assms(3) show ?thesis by (simp add: exponent_def)
qed

text \<open>The rounding of a number whose binade is known.\<close>

lemma fl_eq:
  assumes "pow2 e \<le> \<bar>x\<bar>" "\<bar>x\<bar> < pow2 (e + 1)" "- 1022 \<le> e"
  shows "fl x = real_of_int (py_round (x / pow2 (e - 52))) * pow2 (e - 52)"
proof -
  have "x \<noteq> 0"
    using assms(1) by (simp add: pow2_powr) (smt (verit) powr_gt_zero)
  then show ?thesis
    by (simp add: fl_def Let_def exponent_eq [OF assms])
qed

lemma fl_exact:
  assumes "pow2 e \<le> \<bar>x\<bar>" "\<bar>x\<bar> < pow2 (e + 1)" "- 1022 \<le> e"
    and "x / pow2 (e - 52) = real_of_int m"
  shows "fl x = x"
proof -
  have p: "pow2 (e - 52) \<noteq> 0" by (simp add: pow2_def)
  have "fl x = real_of_int m * pow2 (e - 52)"
    by (simp add: fl_eq [OF assms(1-3)] assms(4) py_round_of_int)
  also have "\<dots> = x"
    using assms(4) p by (simp add: field_simps)
  finally show ?thesis .
qed

lemma fl_zero: "fl 0 = 0"
  by (simp add: fl_def)

lemma fl_one: "fl 1 = 1"
  by (rule fl_exact [where e = 0 and m = "2 ^ 52"]) (simp_all add: pow2_def)

lemma fl_two: "fl 2 = 2"
  by (rule fl_exact [where e = 1 and m = "2 ^ 52"]) (simp_all add: pow2_def)

lemma fl_three: "fl 3 = 3"
  by (rule fl_exact [where e = 1 and m = "3 * 2 ^ 51"]) (simp_all add: pow2_def)


lemma fl_minus_one: "fl (- 1) = - 1"
  by (rule fl_exact [where e = 0 and m = "- (2 ^ 52)"]) (simp_all add: pow2_def)



text \<open>The double next below one half, \<open>0.49999999999999994\<close>, and its double.\<close>

lemma fl_below_half: "fl (1 / 2 - 1 / 2 ^ 54) = 1 / 2 - 1 / 2 ^ 54"
  by (rule fl_exact [where e = "- 2" and m = "2 ^ 53 - 1"]) (simp_all add: pow2_def)

lemma fl_below_one: "fl (1 - 1 / 2 ^ 53) = 1 - 1 / 2 ^ 53"
  by (rule fl_exact [where e = "- 1" and m = "2 ^ 53 - 1"]) (simp_all add: pow2_def)

text \<open>A tie: \<open>1/2 + 2 ^ -54\<close> lies halfway between two doubles and is rounded to the
  one with the even significand, \<open>1/2\<close>.\<close>

lemma fl_tie_above_half: "fl (1 / 2 + 1 / 2 ^ 54) = 1 / 2"
  by (subst fl_eq [where e = "- 1"]) (simp_all add: pow2_def py_round_def Let_def)


section \<open>Properties of the judge layer\<close>

subsection \<open>Judge selection\<close>

lemma find_not_satisfying: "\<not> P x \<Longrightarrow> find P xs \<noteq> Some x"
  by (induction xs) auto

lemma find_in_set: "find P xs = Some x \<Longrightarrow> x \<in> set xs"
  by (induction xs) (auto split: if_splits)

lemma find_satisfies: "find P xs = Some x \<Longrightarrow> P x"
  by (induction xs) (auto split: if_splits)

lemma find_only_self: "set xs \<subseteq> {p} \<Longrightarrow> find (\<lambda>pid. pid \<noteq> p) xs = None"
  by (induction xs) auto

lemma table_choice_not_self: "table_choice e p A \<Longrightarrow> e \<noteq> Some p"
  by (auto simp: table_choice_def split: option.splits)

lemma table_choice_only_self: "set (dict_keys A) \<subseteq> {p} \<Longrightarrow> \<not> table_choice e p A"
  by (auto simp: table_choice_def split: option.splits)

lemma select_judge_not_self: "select_judge p A \<noteq> Some p"
  by (auto simp: select_judge_def Let_def find_not_satisfying dest: table_choice_not_self)

lemma select_judge_none: "set (dict_keys A) \<subseteq> {p} \<Longrightarrow> select_judge p A = None"
  by (simp add: select_judge_def Let_def table_choice_only_self find_only_self)

lemma select_judge_in_keys: "select_judge p A = Some j \<Longrightarrow> j \<in> set (dict_keys A)"
  by (auto simp: select_judge_def Let_def table_choice_def find_in_set
           split: if_splits option.splits)

lemma select_tiebreak_judge_in_keys:
  "select_tiebreak_judge p j A = Some t \<Longrightarrow> t \<in> set (dict_keys A)"
  by (auto simp: select_tiebreak_judge_def Let_def table_choice_def find_in_set
           split: if_splits option.splits)

lemma select_tiebreak_judge_distinct:
  "select_tiebreak_judge p j A = Some t \<Longrightarrow> t \<noteq> p \<and> t \<noteq> j"
  by (auto simp: select_tiebreak_judge_def Let_def table_choice_def
           split: if_splits option.splits dest: find_satisfies)

lemma map_of_dict_key: "k \<in> set (dict_keys A) \<Longrightarrow> \<exists>v. map_of A k = Some v"
  by (cases "map_of A k") (auto simp: dict_keys_def map_of_eq_None_iff)

subsection \<open>The branches of evaluate\_judge\<close>

lemma py_round_three_halves: "py_round (3 / 2) = 2"
  by (simp add: py_round_def Let_def)

lemma py_round_three: "py_round 3 = 3"
  by (simp add: py_round_def Let_def)

lemma resolution_spec_scenario:
  "resolution_spec 0 3 1 1 = (2, ''average (tiebreak sided with layers)'')"
  by (simp add: resolution_spec_def py_round_three_halves py_round_three)

lemma evaluate_judge_no_judge:
  assumes "select_judge p A = None \<or> select_judge p A = Some []"
  shows "evaluate_judge py test_name category prompts rounds rubric p A s r en w
           = (Inr (fallback_result, no_judge_audit), w)"
  using assms by (auto simp: evaluate_judge_def no_judge_audit_def)

lemma evaluate_judge_plain:
  assumes "select_judge p A = Some j" "j \<noteq> []" "map_of A j = Some jp"
    and "call_judge py jp (JUDGE_PROMPT_TEMPLATE test_name category (format_prompts prompts)
            (format_responses rounds) rubric) w = ((ps, pr), w1)"
    and "\<not> (en \<and> needs_tiebreak ps s r \<and> truthy (select_tiebreak_judge p j A))"
  shows "evaluate_judge py test_name category prompts rounds rubric p A s r en w
           = (Inr (\<lparr>jr_score_raw = ps, jr_normalized = real_of_int ps / 3, jr_reason = pr,
                    jr_judge_model = prov_display_name jp, jr_judge_provider_id = j,
                    jr_tiebreak_used = False, jr_tiebreak_details = []\<rparr>,
                   \<lparr>ja_primary_judge = j, ja_primary_score = ps, ja_primary_reason = pr,
                    ja_tiebreak_judge = None, ja_tiebreak_score = None,
                    ja_tiebreak_reason = None, ja_final_source = ''primary''\<rparr>), w1)"
proof (cases "en \<and> needs_tiebreak ps s r")
  case False
  with assms(1-4) show ?thesis
    by (cases en) (simp_all add: evaluate_judge_def Let_def)
next
  case True
  with assms(5) have "\<not> truthy (select_tiebreak_judge p j A)" by simp
  then have "select_tiebreak_judge p j A = None \<or> select_tiebreak_judge p j A = Some []"
    by (simp add: truthy_def split: option.splits)
  with True assms(1-4) show ?thesis
    by (auto simp: evaluate_judge_def Let_def)
qed

lemma evaluate_judge_tiebreak:
  assumes "select_judge p A = Some j" "j \<noteq> []" "map_of A j = Some jp"
    and "call_judge py jp (JUDGE_PROMPT_TEMPLATE test_name category (format_prompts prompts)
            (format_responses rounds) rubric) w = ((ps, pr), w1)"
    and "en" "needs_tiebreak ps s r"
    and "select_tiebreak_judge p j A = Some t" "t \<noteq> []" "map_of A t = Some tp"
    and "call_judge py tp (JUDGE_PROMPT_TEMPLATE test_name category (format_prompts prompts)
            (format_responses rounds) rubric) w1 = ((ts, tr), w2)"
  shows "evaluate_judge py test_name category prompts rounds rubric p A s r en w
           = (Inr (\<lparr>jr_score_raw = fst (resolution_spec ps ts s r),
                    jr_normalized = real_of_int (fst (resolution_spec ps ts s r)) / 3,
                    jr_reason = pr,
                    jr_judge_model = prov_display_name jp, jr_judge_provider_id = j,
                    jr_tiebreak_used = True,
                    jr_tiebreak_details = ''TB judge='' @ t @ '', score='' @ str_of_int ts\<rparr>,
                   \<lparr>ja_primary_judge = j, ja_primary_score = ps, ja_primary_reason = pr,
                    ja_tiebreak_judge = Some t, ja_tiebreak_score = Some ts,
                    ja_tiebreak_reason = Some tr,
                    ja_final_source = snd (resolution_spec ps ts s r)\<rparr>), w2)"
  using assms
  by (simp add: evaluate_judge_def Let_def resolution_spec_def)

lemma evaluate_judge_cases:
  fixes py test_name category prompts rounds rubric p A s r en w
  defines "jprompt \<equiv> JUDGE_PROMPT_TEMPLATE test_name category (format_prompts prompts)
                        (format_responses rounds) rubric"
  defines "out \<equiv> evaluate_judge py test_name category prompts rounds rubric p A s r en w"
  obtains
    (no_judge) "\<not> truthy (select_judge p A)" "out = (Inr (fallback_result, no_judge_audit), w)"
  | (plain) j jp ps pr w1 where
      "select_judge p A = Some j" "j \<noteq> []" "map_of A j = Some jp"
      "call_judge py jp jprompt w = ((ps, pr), w1)"
      "\<not> (en \<and> needs_tiebreak ps s r \<and> truthy (select_tiebreak_judge p j A))"
      "out = (Inr (\<lparr>jr_score_raw = ps, jr_normalized = real_of_int ps / 3, jr_reason = pr,
                    jr_judge_model = prov_display_name jp, jr_judge_provider_id = j,
                    jr_tiebreak_used = False, jr_tiebreak_details = []\<rparr>,
                   \<lparr>ja_primary_judge = j, ja_primary_score = ps, ja_primary_reason = pr,
                    ja_tiebreak_judge = None, ja_tiebreak_score = None,
                    ja_tiebreak_reason = None, ja_final_source = ''primary''\<rparr>), w1)"
  | (tiebreak) j jp ps pr w1 t tp ts tr w2 where
      "select_judge p A = Some j" "j \<noteq> []" "map_of A j = Some jp"
      "call_judge py jp jprompt w = ((ps, pr), w1)"
      "en" "needs_tiebreak ps s r"
      "select_tiebreak_judge p j A = Some t" "t \<noteq> []" "map_of A t = Some tp"
      "call_judge py tp jprompt w1 = ((ts, tr), w2)"
      "out = (Inr (\<lparr>jr_score_raw = fst (resolution_spec ps ts s r),
                    jr_normalized = real_of_int (fst (resolution_spec ps ts s r)) / 3,
                    jr_reason = pr,
                    jr_judge_model = prov_display_name jp, jr_judge_provider_id = j,
                    jr_tiebreak_used = True,
                    jr_tiebreak_details = ''TB judge='' @ t @ '', score='' @ str_of_int ts\<rparr>,
                   \<lparr>ja_primary_judge = j, ja_primary_score = ps, ja_primary_reason = pr,
                    ja_tiebreak_judge = Some t, ja_tiebreak_score = Some ts,
                    ja_tiebreak_reason = Some tr,
                    ja_final_source = snd (resolution_spec ps ts s r)\<rparr>), w2)"
proof (cases "truthy (select_judge p A)")
  case False
  then have "select_judge p A = None \<or> select_judge p A = Some []"
    by (simp add: truthy_def split: option.splits)
  then have "out = (Inr (fallback_result, no_judge_audit), w)"
    unfolding out_def by (rule evaluate_judge_no_judge)
  with False show ?thesis by (rule no_judge)
next
  case True
  then obtain j where j: "select_judge p A = Some j" "j \<noteq> []"
    by (auto simp: truthy_def split: option.splits)
  from select_judge_in_keys [OF j(1)] obtain jp where jp: "map_of A j = Some jp"
    using map_of_dict_key by blast
  obtain ps pr w1 where cj: "call_judge py jp jprompt w = ((ps, pr), w1)"
    by (metis surj_pair)
  show ?thesis
  proof (cases "en \<and> needs_tiebreak ps s r \<and> truthy (select_tiebreak_judge p j A)")
    case False
    have "out = (Inr (\<lparr>jr_score_raw = ps, jr_normalized = real_of_int ps / 3, jr_reason = pr,
                    jr_judge_model = prov_display_name jp, jr_judge_provider_id = j,
                    jr_tiebreak_used = False, jr_tiebreak_details = []\<rparr>,
                   \<lparr>ja_primary_judge = j, ja_primary_score = ps, ja_primary_reason = pr,
                    ja_tiebreak_judge = None, ja_tiebreak_score = None,
                    ja_tiebreak_reason = None, ja_final_source = ''primary''\<rparr>), w1)"
      unfolding out_def
      by (rule evaluate_judge_plain [OF j jp cj [unfolded jprompt_def] False])
    with j jp cj False show ?thesis by (rule plain)
  next
    case True
    then obtain t where t: "select_tiebreak_judge p j A = Some t" "t \<noteq> []"
      by (auto simp: truthy_def split: option.splits)
    from select_tiebreak_judge_in_keys [OF t(1)] obtain tp where tp: "map_of A t = Some tp"
      using map_of_dict_key by blast
    obtain ts tr w2 where ct: "call_judge py tp jprompt w1 = ((ts, tr), w2)"
      by (metis surj_pair)
    from True have en: en and nt: "needs_tiebreak ps s r" by simp_all
    have "out = (Inr (\<lparr>jr_score_raw = fst (resolution_spec ps ts s r),
                    jr_normalized = real_of_int (fst (resolution_spec ps ts s r)) / 3,
                    jr_reason = pr,
                    jr_judge_model = prov_display_name jp, jr_judge_provider_id = j,
                    jr_tiebreak_used = True,
                    jr_tiebreak_details = ''TB judge='' @ t @ '', score='' @ str_of_int ts\<rparr>,
                   \<lparr>ja_primary_judge = j, ja_primary_score = ps, ja_primary_reason = pr,
                    ja_tiebreak_judge = Some t, ja_tiebreak_score = Some ts,
                    ja_tiebreak_reason = Some tr,
                    ja_final_source = snd (resolution_spec ps ts s r)\<rparr>), w2)"
      unfolding out_def
      by (rule evaluate_judge_tiebreak [OF j jp cj [unfolded jprompt_def] en nt t tp
                                           ct [unfolded jprompt_def]])
    with j jp cj en nt t tp ct show ?thesis by (rule tiebreak)
  qed
qed

lemma evaluate_judge_never_raises:
  "\<exists>res audit w'. evaluate_judge py test_name category prompts rounds rubric p A s r en w
                     = (Inr (res, audit), w')"
  by (cases rule: evaluate_judge_cases
        [where p = p and A = A and py = py and test_name = test_name
             and category = category and prompts = prompts and rounds = rounds
             and rubric = rubric and w = w and en = en and s = s and r = r]) auto


text \<open>
  Claim C1. Judge selection never returns the evaluated provider: for every provider
  identifier \<open>p\<close> and every dictionary \<open>A\<close> of available providers,
  \<open>select_judge p A\<close> is not \<open>p\<close>. If \<open>A\<close> has no key other than \<open>p\<close> (a
  single provider, or none), the selection yields no judge, and \<open>evaluate_judge\<close>
  returns without raising, leaves the world as it was and gives the degraded result: raw
  score 0, normalized score 0.0, reason "No judge available", and an audit whose primary
  judge is "none".
\<close>

theorem select_judge_never_self_and_fails_closed:
  "select_judge p A \<noteq> Some p \<and>
   (set (dict_keys A) \<subseteq> {p} \<longrightarrow>
      select_judge p A = None \<and>
      (\<exists>res audit.
         evaluate_judge py test_name category prompts rounds rubric p A s r en w
           = (Inr (res, audit), w) \<and>
         jr_score_raw res = 0 \<and> jr_normalized res = 0 \<and>
         jr_reason res = ''No judge available'' \<and> ja_primary_judge audit = ''none''))"
  by (auto simp: select_judge_not_self select_judge_none evaluate_judge_def fallback_result_def)

theorem select_judge_never_self_and_fails_closed_witness:
  "select_judge ''claude'' one_provider \<noteq> Some ''claude'' \<and>
   set (dict_keys one_provider) \<subseteq> {''claude''} \<and>
   select_judge ''claude'' one_provider = None \<and>
   (\<exists>res audit.
      evaluate_judge example_py (td_name example_test) (td_category example_test)
        (td_prompts example_test) good_rounds (td_judge_rubric example_test) ''claude''
        one_provider 1 1 True ()
        = (Inr (res, audit), ()) \<and>
      jr_score_raw res = 0 \<and> jr_normalized res = 0 \<and>
      jr_reason res = ''No judge available'' \<and> ja_primary_judge audit = ''none'')"
  using select_judge_never_self_and_fails_closed
    [where p = "''claude''" and A = one_provider and py = example_py
       and test_name = "td_name example_test" and category = "td_category example_test"
       and prompts = "td_prompts example_test" and rounds = good_rounds
       and rubric = "td_judge_rubric example_test" and s = 1 and r = 1 and en = True
       and w = "()"]
  by (simp add: one_provider_def dict_keys_def)

subsection \<open>The test for a tiebreak in doubles\<close>

lemma needs_tiebreak_zero_one_one: "needs_tiebreak 0 1 1"
  by (simp add: needs_tiebreak_def Let_def fl_zero fl_one fl_two fl_minus_one)

text \<open>At the score 3 and both layers at \<open>0.49999999999999994\<close> the difference
  \<open>1/2 + 2 ^ -54\<close> is above one half as a number and is rounded to one half as a
  double: the test fails.\<close>

lemma needs_tiebreak_rounded_difference:
  "\<not> needs_tiebreak 3 (1 / 2 - 1 / 2 ^ 54) (1 / 2 - 1 / 2 ^ 54) \<and>
   0.5 < \<bar>real_of_int 3 / 3 - ((1 / 2 - 1 / 2 ^ 54) + (1 / 2 - 1 / 2 ^ 54)) / 2\<bar>"
proof -
  have a: "(1 / 2 - 1 / 2 ^ 54) + (1 / 2 - 1 / 2 ^ 54) = (1 - 1 / 2 ^ 53 :: real)"
    by simp
  have b: "(1 - 1 / 2 ^ 53) / 2 = (1 / 2 - 1 / 2 ^ 54 :: real)"
    by simp
  have c: "1 - (1 / 2 - 1 / 2 ^ 54) = (1 / 2 + 1 / 2 ^ 54 :: real)"
    by simp
  have "\<not> needs_tiebreak 3 (1 / 2 - 1 / 2 ^ 54) (1 / 2 - 1 / 2 ^ 54)"
    unfolding needs_tiebreak_def Let_def
    by (simp only: a of_int_numeral fl_three div_self fl_below_one b fl_below_half fl_one c
          fl_tie_above_half)
  then show ?thesis by simp
qed

subsection \<open>Runs of the judge layer on the examples\<close>

lemma run_two_providers:
  "evaluate_judge example_py (td_name example_test) (td_category example_test)
     (td_prompts example_test) good_rounds (td_judge_rubric example_test) ''claude''
     two_providers 1 1 True ()
     = (Inr (two_result, two_audit), ())"
  by (simp add: evaluate_judge_def select_judge_def select_tiebreak_judge_def table_choice_def
      JUDGE_ROTATION_def TIEBREAK_JUDGE_def dict_keys_def two_providers_def claude_def gpt_def
      replying_def call_judge_def failure_def truthy_def needs_tiebreak_zero_one_one
      two_result_def
      two_audit_def)

lemma run_three_providers:
  "evaluate_judge example_py (td_name example_test) (td_category example_test)
     (td_prompts example_test) good_rounds (td_judge_rubric example_test) ''claude''
     three_providers 1 1 True ()
     = (Inr (three_result, three_audit), ())"
  by (simp add: evaluate_judge_def select_judge_def select_tiebreak_judge_def table_choice_def
      JUDGE_ROTATION_def TIEBREAK_JUDGE_def dict_keys_def three_providers_def claude_def gpt_def
      gemini_def replying_def call_judge_def answer_def failure_def truthy_def
      needs_tiebreak_zero_one_one parse_judge_response_def bind_exn_def example_py_def group1_def
      py_round_def str_of_int_def str_of_nat.simps digit_char_def strip_def three_result_def
      three_audit_def)

lemma run_three_providers_disabled:
  "evaluate_judge example_py (td_name example_test) (td_category example_test)
     (td_prompts example_test) good_rounds (td_judge_rubric example_test) ''claude''
     three_providers 1 1 False ()
     = (Inr (two_result, two_audit), ())"
  by (simp add: evaluate_judge_def select_judge_def table_choice_def
      JUDGE_ROTATION_def dict_keys_def three_providers_def claude_def gpt_def gemini_def
      replying_def call_judge_def failure_def truthy_def two_result_def two_audit_def)

lemma run_three_providers_gemini:
  "evaluate_judge example_py (td_name example_test) (td_category example_test)
     (td_prompts example_test) gemini_rounds (td_judge_rubric example_test) ''gemini''
     three_providers 1 1 True ()
     = (Inr (gemini_result, gemini_audit), ())"
  by (simp add: evaluate_judge_def select_judge_def select_tiebreak_judge_def table_choice_def
      JUDGE_ROTATION_def TIEBREAK_JUDGE_def dict_keys_def three_providers_def claude_def gpt_def
      gemini_def replying_def call_judge_def answer_def failure_def truthy_def
      needs_tiebreak_zero_one_one parse_judge_response_def bind_exn_def example_py_def bs_def
      str_of_int_def str_of_nat.simps digit_char_def gemini_result_def gemini_audit_def)

subsection \<open>Resolution of a tiebreak\<close>

text \<open>
  Claim C2. When a tiebreak judge is invoked, the final raw score and the label of the
  audit are the function \<open>resolution_spec\<close> of the primary score, the tiebreak score and
  the normalized structural and reference scores: the primary score, "primary (tiebreak
  confirmed)", when the two scores differ by at most 1; else the rounded mean of the two
  scores, labelled "average (tiebreak sided with layers)" when the tiebreak score is within
  1 of the rounded layer average on the scale 0 to 3, and "average (no consensus)"
  otherwise. In particular, for primary score 0, tiebreak score 3 and both layers at 1.0
  the final raw score is 2, labelled "average (tiebreak sided with layers)".
\<close>

theorem tiebreak_resolution_as_specified:
  assumes "evaluate_judge py test_name category prompts rounds rubric p A s r en w
             = (Inr (res, audit), w')"
    and "jr_tiebreak_used res"
  shows "(\<exists>tb. ja_tiebreak_score audit = Some tb \<and>
           (jr_score_raw res, ja_final_source audit)
             = resolution_spec (ja_primary_score audit) tb s r) \<and>
         (ja_primary_score audit = 0 \<and> ja_tiebreak_score audit = Some 3 \<and> s = 1 \<and> r = 1 \<longrightarrow>
            jr_score_raw res = 2 \<and>
            ja_final_source audit = ''average (tiebreak sided with layers)'')"
proof -
  have "\<exists>tb. ja_tiebreak_score audit = Some tb \<and>
           (jr_score_raw res, ja_final_source audit)
             = resolution_spec (ja_primary_score audit) tb s r"
    using assms
    by (cases rule: evaluate_judge_cases
          [where p = p and A = A and py = py and test_name = test_name
             and category = category and prompts = prompts and rounds = rounds
             and rubric = rubric and w = w and en = en and s = s and r = r])
       (auto simp: fallback_result_def)
  then obtain tb where
    tb: "ja_tiebreak_score audit = Some tb"
    and eq: "(jr_score_raw res, ja_final_source audit)
               = resolution_spec (ja_primary_score audit) tb s r"
    by blast
  have "jr_score_raw res = 2 \<and> ja_final_source audit = ''average (tiebreak sided with layers)''"
    if "ja_primary_score audit = 0" "ja_tiebreak_score audit = Some 3" "s = 1" "r = 1"
    using that tb eq resolution_spec_scenario by simp
  with tb eq show ?thesis by blast
qed

theorem tiebreak_resolution_as_specified_witness:
  "evaluate_judge example_py (td_name example_test) (td_category example_test)
     (td_prompts example_test) good_rounds (td_judge_rubric example_test) ''claude''
     three_providers 1 1 True ()
     = (Inr (three_result, three_audit), ()) \<and>
   jr_tiebreak_used three_result \<and>
   ja_primary_score three_audit = 0 \<and> ja_tiebreak_score three_audit = Some 3 \<and>
   (jr_score_raw three_result, ja_final_source three_audit) = resolution_spec 0 3 1 1 \<and>
   jr_score_raw three_result = 2 \<and>
   ja_final_source three_audit = ''average (tiebreak sided with layers)''"
proof -
  have used: "jr_tiebreak_used three_result"
    by (simp add: three_result_def)
  from tiebreak_resolution_as_specified [OF run_three_providers used] run_three_providers
  show ?thesis
    by (simp add: three_result_def three_audit_def)
qed

subsection \<open>When a tiebreak is invoked\<close>

text \<open>
  Claim C3, as stated, says that a tiebreak is invoked if and only if tiebreak is enabled
  and the primary judge's normalized score is more than 0.5 away from the mean of the
  structural and reference scores. It fails when no third provider is available: judging
  claude among claude and gpt, with gpt scoring 0 against layers at 1.0 and tiebreak
  enabled, the divergence is 1.0, as a number and as the code computes it in doubles, and
  yet no tiebreak is used.
\<close>

theorem tiebreak_iff_divergence_counterexample:
  "evaluate_judge example_py (td_name example_test) (td_category example_test)
     (td_prompts example_test) good_rounds (td_judge_rubric example_test) ''claude''
     two_providers 1 1 True ()
     = (Inr (two_result, two_audit), ()) \<and>
   \<not> (jr_tiebreak_used two_result \<longleftrightarrow>
        True \<and> 0.5 < \<bar>real_of_int (ja_primary_score two_audit) / 3 - (1 + 1) / 2\<bar>) \<and>
   \<not> (jr_tiebreak_used two_result \<longleftrightarrow>
        True \<and> needs_tiebreak (ja_primary_score two_audit) 1 1)"
  by (simp add: run_two_providers) (simp add: two_result_def two_audit_def
        needs_tiebreak_zero_one_one)

text \<open>
  Claim C3, amended. A tiebreak evaluation is invoked if and only if a primary judge was
  selected, tiebreak is enabled, the divergence
  \<open>|primary_score / 3 - (structural_normalized + reference_normalized) / 2|\<close>, computed in
  doubles (every operation rounded to the nearest double), is above 0.5, and
  \<open>select_tiebreak_judge\<close> finds a provider other than the evaluated one and the primary
  judge. In particular, with tiebreak disabled the flag \<open>tiebreak_used\<close> is always false.
\<close>

theorem tiebreak_invoked_iff:
  assumes "evaluate_judge py test_name category prompts rounds rubric p A s r en w
             = (Inr (res, audit), w')"
  shows "(jr_tiebreak_used res \<longleftrightarrow>
            truthy (select_judge p A) \<and> en \<and>
            0.5 < \<bar>fl (fl (fl (real_of_int (ja_primary_score audit)) / 3)
                       - fl (fl (s + r) / 2))\<bar> \<and>
            truthy (select_tiebreak_judge p (ja_primary_judge audit) A)) \<and>
         (\<not> en \<longrightarrow> \<not> jr_tiebreak_used res)"
  using assms
  by (cases rule: evaluate_judge_cases
        [where p = p and A = A and py = py and test_name = test_name
           and category = category and prompts = prompts and rounds = rounds
           and rubric = rubric and w = w and en = en and s = s and r = r])
     (auto simp: fallback_result_def needs_tiebreak_def Let_def truthy_def)

theorem tiebreak_invoked_iff_witness:
  "jr_tiebreak_used three_result \<and>
   truthy (select_judge ''claude'' three_providers) \<and>
   0.5 < \<bar>fl (fl (fl (real_of_int (ja_primary_score three_audit)) / 3) - fl (fl (1 + 1) / 2))\<bar> \<and>
   truthy (select_tiebreak_judge ''claude'' (ja_primary_judge three_audit) three_providers) \<and>
   \<not> jr_tiebreak_used two_result"
  using tiebreak_invoked_iff [OF run_three_providers]
        tiebreak_invoked_iff [OF run_three_providers_disabled]
  by (simp add: two_result_def three_result_def)

section \<open>Properties of the structural layer\<close>

subsection \<open>The normalized score\<close>

lemma example_target_text:
  "extract_assistant_texts good_rounds = [''hello''] \<and>
   py_join nl (extract_assistant_texts good_rounds) = ''hello''"
  by (simp add: extract_assistant_texts_def good_rounds_def rounds_with_def user_msg_def)

lemma nonblank_hello: "nonblank_lines ''hello'' = [''hello'']"
  by (simp add: nonblank_lines_def strip_def py_isspace_def)

text \<open>
  Claim C6. For every list of structural checks and every list of conversation rounds the
  normalized score of \<open>evaluate_structural\<close> lies between 0.0 and 1.0, whatever the
  weights (zero and negative ones included), and for the empty list of checks it is
  exactly 1.0.
\<close>

theorem structural_score_in_unit_interval:
  "0 \<le> ss_normalized (evaluate_structural py checks rounds) \<and>
   ss_normalized (evaluate_structural py checks rounds) \<le> 1 \<and>
   ss_normalized (evaluate_structural py [] rounds) = 1"
  by (auto simp: evaluate_structural_def Let_def split: prod.splits)

text \<open>An instance with a negative weight: a passed check of weight 2 and a check of an
  unknown type of weight -1 give the weighted score 2 over the total weight 1, which is
  clamped to 1.\<close>

theorem structural_score_in_unit_interval_witness:
  "ss_weighted_score (evaluate_structural example_py
      [example_check ''min_lines'' 1 2 (- 1), example_check ''no_such_type'' 0 (- 1) (- 1)]
      good_rounds) = 2 \<and>
   ss_total_weight (evaluate_structural example_py
      [example_check ''min_lines'' 1 2 (- 1), example_check ''no_such_type'' 0 (- 1) (- 1)]
      good_rounds) = 1 \<and>
   0 \<le> ss_normalized (evaluate_structural example_py
      [example_check ''min_lines'' 1 2 (- 1), example_check ''no_such_type'' 0 (- 1) (- 1)]
      good_rounds) \<and>
   ss_normalized (evaluate_structural example_py
      [example_check ''min_lines'' 1 2 (- 1), example_check ''no_such_type'' 0 (- 1) (- 1)]
      good_rounds) \<le> 1 \<and>
   ss_normalized (evaluate_structural example_py [] good_rounds) = 1"
  using structural_score_in_unit_interval
    [of example_py
        "[example_check ''min_lines'' 1 2 (- 1), example_check ''no_such_type'' 0 (- 1) (- 1)]"
        good_rounds]
  by (simp add: evaluate_structural_def Let_def structural_step_def evaluate_single_check_def
      get_target_text_def example_check_def example_target_text check_min_lines_def
      nonblank_hello py_trunc_def)

subsection \<open>The minimum-lines check\<close>

text \<open>The check strips the text before it splits it into lines and drops the lines that
  strip to nothing. The count it obtains is the number of lines of the text itself that
  are not blank.\<close>

lemma dropWhile_nonempty_iff: "dropWhile P xs \<noteq> [] \<longleftrightarrow> list_ex (\<lambda>c. \<not> P c) xs"
  by (induction xs) auto

lemma strip_nonempty_iff: "strip l \<noteq> [] \<longleftrightarrow> not_blank l"
proof -
  have "strip l \<noteq> [] \<longleftrightarrow> dropWhile py_isspace (rev (dropWhile py_isspace l)) \<noteq> []"
    by (simp add: strip_def)
  also have "\<dots> \<longleftrightarrow> list_ex (\<lambda>c. \<not> py_isspace c) (rev (dropWhile py_isspace l))"
    by (rule dropWhile_nonempty_iff)
  also have "\<dots> \<longleftrightarrow> list_ex (\<lambda>c. \<not> py_isspace c) (dropWhile py_isspace l)"
    by (simp add: list_ex_iff)
  also have "\<dots> \<longleftrightarrow> list_ex (\<lambda>c. \<not> py_isspace c) l"
    by (induction l) auto
  finally show ?thesis by (simp add: not_blank_def)
qed

lemma split_on_nonempty: "split_on sep s \<noteq> []"
  by (induction s) (auto split: list.splits)

lemma count_nonblank_Cons_space:
  "py_isspace c \<Longrightarrow> count_nonblank_lines (c # cs) = count_nonblank_lines cs"
  using split_on_nonempty [of "CHR 0x0A" cs]
  by (cases "split_on (CHR 0x0A) cs") (auto simp: count_nonblank_lines_def not_blank_def)

lemma count_nonblank_dropWhile:
  "count_nonblank_lines (dropWhile py_isspace s) = count_nonblank_lines s"
  by (induction s) (auto simp: count_nonblank_Cons_space)

lemma split_on_snoc:
  "split_on sep (s @ [c]) =
     (if c = sep then split_on sep s @ [[]]
      else butlast (split_on sep s) @ [last (split_on sep s) @ [c]])"
proof (induction s)
  case Nil
  then show ?case by simp
next
  case (Cons d s)
  then show ?case
    using split_on_nonempty [of sep s]
    by (cases "split_on sep s") (auto split: list.splits)
qed

lemma count_nonblank_snoc_space:
  assumes "py_isspace c"
  shows "count_nonblank_lines (s @ [c]) = count_nonblank_lines s"
proof -
  obtain fs f where fs: "split_on (CHR 0x0A) s = fs @ [f]"
    using split_on_nonempty [of "CHR 0x0A" s] by (metis rev_exhaust)
  show ?thesis
    using assms by (simp add: count_nonblank_lines_def split_on_snoc fs not_blank_def)
qed

lemma count_nonblank_rev_dropWhile:
  "count_nonblank_lines (rev (dropWhile py_isspace ys)) = count_nonblank_lines (rev ys)"
  by (induction ys) (auto simp: count_nonblank_snoc_space)

lemma count_nonblank_strip: "count_nonblank_lines (strip txt) = count_nonblank_lines txt"
  by (simp add: strip_def count_nonblank_rev_dropWhile count_nonblank_dropWhile)

lemma length_nonblank_lines: "length (nonblank_lines txt) = count_nonblank_lines txt"
proof -
  have "(\<lambda>l. strip l \<noteq> []) = not_blank"
    by (rule ext) (simp add: strip_nonempty_iff)
  then have "length (nonblank_lines txt) = count_nonblank_lines (strip txt)"
    by (simp add: nonblank_lines_def count_nonblank_lines_def)
  then show ?thesis by (simp add: count_nonblank_strip)
qed

lemma count_three_lines: "count_nonblank_lines three_lines = 3"
  by (simp add: count_nonblank_lines_def three_lines_def nl_def not_blank_def py_isspace_def)

lemma count_two_lines: "count_nonblank_lines two_lines = 2"
  by (simp add: count_nonblank_lines_def two_lines_def nl_def not_blank_def py_isspace_def)

text \<open>
  Claim C8, as stated, measures the number of lines that are not blank against the
  threshold of the check. It fails for a threshold that is not a whole number: with
  threshold 2.5 and a text of two lines the claim gives the half score (2 is below 2.5
  and at least 1.5) and \<open>passed = False\<close>, while the check truncates the threshold to 2
  and gives score 1.0 and \<open>passed = True\<close>.
\<close>

theorem min_lines_threshold_counterexample:
  "(cr_score (check_min_lines (example_check ''min_lines'' 2.5 1 (- 1)) two_lines),
    cr_passed (check_min_lines (example_check ''min_lines'' 2.5 1 (- 1)) two_lines))
     = (1, True) \<and>
   min_lines_spec (sc_threshold (example_check ''min_lines'' 2.5 1 (- 1)))
     (real (count_nonblank_lines two_lines)) = (0.5, False)"
  by (simp add: check_min_lines_def min_lines_spec_def Let_def py_trunc_def
      length_nonblank_lines count_two_lines example_check_def)

text \<open>
  Claim C8, amended. The check \<open>min_lines\<close> counts the lines of the target text that are
  not blank and compares the count with the threshold truncated to an integer
  (\<open>int(threshold)\<close>): score 1.0 and \<open>passed = True\<close> when the count is at or above the
  truncated threshold, score 0.5 and \<open>passed = False\<close> when it is below it and at least
  60% of it, score 0.0 and \<open>passed = False\<close> otherwise. In particular, threshold 5 and a
  text of exactly 3 lines that are not blank give score 0.5 and \<open>passed = False\<close>.
\<close>

theorem min_lines_tiers:
  "(cr_score (check_min_lines check txt), cr_passed (check_min_lines check txt))
     = min_lines_spec (real_of_int (py_trunc (sc_threshold check)))
         (real (count_nonblank_lines txt)) \<and>
   (sc_threshold check = 5 \<and> count_nonblank_lines txt = 3 \<longrightarrow>
      cr_score (check_min_lines check txt) = 0.5 \<and> \<not> cr_passed (check_min_lines check txt))"
  by (auto simp: check_min_lines_def min_lines_spec_def Let_def py_trunc_def
        length_nonblank_lines)

theorem min_lines_tiers_witness:
  "sc_threshold (example_check ''min_lines'' 5 1 (- 1)) = 5 \<and>
   count_nonblank_lines three_lines = 3 \<and>
   cr_score (check_min_lines (example_check ''min_lines'' 5 1 (- 1)) three_lines) = 0.5 \<and>
   \<not> cr_passed (check_min_lines (example_check ''min_lines'' 5 1 (- 1)) three_lines)"
  using min_lines_tiers [of "example_check ''min_lines'' 5 1 (- 1)" three_lines]
  by (simp add: count_three_lines) (simp add: example_check_def)

subsection \<open>The word-count check in doubles\<close>

text \<open>The half credit above the range is bounded by \<open>max_words * 1.4\<close>, a product of
  doubles. With 45 words as the maximum the product is the double just below 63, and a
  text of 63 words scores 0.\<close>

lemma fl_forty_five: "fl 45 = 45"
  by (rule fl_exact [where e = 5 and m = "45 * 2 ^ 47"]) (simp_all add: pow2_def)

lemma fl_fourteen_tenths: "fl (14 / 10) = 6305039478318694 / 2 ^ 52"
  by (subst fl_eq [where e = 0]) (simp_all add: pow2_def py_round_def Let_def)

lemma word_count_bound_below: "fl (fl 45 * fl (14 / 10)) < 63"
  unfolding fl_forty_five fl_fourteen_tenths
  by (subst fl_eq [where e = 5]) (simp_all add: pow2_def py_round_def Let_def)

lemma word_count_sixty_three:
  assumes "sc_threshold check = 10" "sc_threshold_max check = 45" "length (py_split txt) = 63"
  shows "cr_score (check_word_count_range check txt) = 0"
  using word_count_bound_below
  by (simp add: check_word_count_range_def Let_def assms py_trunc_def)

subsection \<open>A target round out of range\<close>

lemma get_target_text_out_of_range:
  "sc_target_round check < 0 \<or> int (length ts) \<le> sc_target_round check \<Longrightarrow>
   get_target_text check ts all_text = all_text"
  by (auto simp: get_target_text_def Let_def)

lemma get_target_text_all: "get_target_text (check\<lparr>sc_target_round := - 1\<rparr>) ts all_text = all_text"
  by (simp add: get_target_text_def)

lemma check_regex_present_target:
  "check_regex_present py (check\<lparr>sc_target_round := v\<rparr>) txt = check_regex_present py check txt"
  by (simp add: check_regex_present_def split: sum.splits)

lemma check_regex_absent_target:
  "check_regex_absent py (check\<lparr>sc_target_round := v\<rparr>) txt = check_regex_absent py check txt"
  by (simp add: check_regex_absent_def split: sum.splits)

lemma check_min_lines_target:
  "check_min_lines (check\<lparr>sc_target_round := v\<rparr>) txt = check_min_lines check txt"
  by (simp add: check_min_lines_def)

lemma check_min_items_target:
  "check_min_items py (check\<lparr>sc_target_round := v\<rparr>) txt = check_min_items py check txt"
  by (simp add: check_min_items_def)

lemma check_numeric_in_range_target:
  "check_numeric_in_range py (check\<lparr>sc_target_round := v\<rparr>) txt
     = check_numeric_in_range py check txt"
  by (simp add: check_numeric_in_range_def)

lemma check_multi_round_consistency_target:
  "check_multi_round_consistency py (check\<lparr>sc_target_round := v\<rparr>) ts
     = check_multi_round_consistency py check ts"
  by (simp add: check_multi_round_consistency_def)

lemma check_word_count_range_target:
  "check_word_count_range (check\<lparr>sc_target_round := v\<rparr>) txt = check_word_count_range check txt"
  by (simp add: check_word_count_range_def)

lemma evaluate_single_check_out_of_range:
  assumes "sc_target_round check < 0 \<or> int (length ts) \<le> sc_target_round check"
  shows "evaluate_single_check py check ts all_text
           = evaluate_single_check py (check\<lparr>sc_target_round := - 1\<rparr>) ts all_text"
  unfolding evaluate_single_check_def Let_def
    get_target_text_out_of_range [OF assms] get_target_text_all
    check_regex_present_target check_regex_absent_target check_min_lines_target
    check_min_items_target check_numeric_in_range_target check_multi_round_consistency_target
    check_word_count_range_target
  by simp

lemma two_reply_texts:
  "extract_assistant_texts two_reply_rounds = [''alpha'', ''beta''] \<and>
   py_join nl (extract_assistant_texts two_reply_rounds) = ''alpha'' @ nl @ ''beta''"
  by (simp add: extract_assistant_texts_def two_reply_rounds_def user_msg_def)

lemma nonblank_alpha_beta:
  "nonblank_lines (''alpha'' @ nl @ ''beta'') = [''alpha'', ''beta''] \<and>
   nonblank_lines ''alpha'' = [''alpha'']"
  by (simp add: nonblank_lines_def strip_def py_isspace_def nl_def)

text \<open>
  Claim C10. For a structural check whose \<open>target_round\<close> is out of the range of the
  assistant's responses (an index other than -1 that is negative, or at least the number
  of assistant turns), \<open>get_target_text\<close> reads no response at the index: it returns the
  concatenation of all the assistant's texts. The evaluator of the check's type is then
  applied to that full text (\<open>multi_round_consistency\<close>, which never uses the target
  text, to the list of responses; an unknown type gives the diagnostic result), and so the
  result is that of the same check with \<open>target_round = -1\<close>.
\<close>

theorem target_round_out_of_range_falls_back:
  assumes "sc_target_round check \<noteq> - 1"
    and "sc_target_round check < 0 \<or> int (length ts) \<le> sc_target_round check"
    and "ts = extract_assistant_texts rounds"
    and "all_text = py_join nl ts"
  shows "get_target_text check ts all_text = all_text \<and>
         evaluate_single_check py check ts all_text
         = (if sc_check_type check = ''regex_present''
            then check_regex_present py check all_text
            else if sc_check_type check = ''regex_absent''
            then check_regex_absent py check all_text
            else if sc_check_type check = ''min_lines''
            then check_min_lines check all_text
            else if sc_check_type check = ''min_items''
            then check_min_items py check all_text
            else if sc_check_type check = ''numeric_in_range''
            then check_numeric_in_range py check all_text
            else if sc_check_type check = ''word_count_range''
            then check_word_count_range check all_text
            else if sc_check_type check = ''multi_round_consistency''
            then check_multi_round_consistency py check ts
            else \<lparr>cr_check_id = sc_check_id check, cr_description = sc_description check,
                  cr_passed = False, cr_score = 0,
                  cr_detail = ''Tipo desconhecido: '' @ sc_check_type check\<rparr>) \<and>
         evaluate_single_check py check ts all_text
         = evaluate_single_check py (check\<lparr>sc_target_round := - 1\<rparr>) ts all_text"
proof -
  have t: "get_target_text check ts all_text = all_text"
    by (rule get_target_text_out_of_range [OF assms(2)])
  have "evaluate_single_check py check ts all_text
         = (if sc_check_type check = ''regex_present''
            then check_regex_present py check all_text
            else if sc_check_type check = ''regex_absent''
            then check_regex_absent py check all_text
            else if sc_check_type check = ''min_lines''
            then check_min_lines check all_text
            else if sc_check_type check = ''min_items''
            then check_min_items py check all_text
            else if sc_check_type check = ''numeric_in_range''
            then check_numeric_in_range py check all_text
            else if sc_check_type check = ''word_count_range''
            then check_word_count_range check all_text
            else if sc_check_type check = ''multi_round_consistency''
            then check_multi_round_consistency py check ts
            else \<lparr>cr_check_id = sc_check_id check, cr_description = sc_description check,
                  cr_passed = False, cr_score = 0,
                  cr_detail = ''Tipo desconhecido: '' @ sc_check_type check\<rparr>)"
    unfolding evaluate_single_check_def Let_def t by simp
  with t evaluate_single_check_out_of_range [OF assms(2)] show ?thesis by simp
qed

theorem target_round_out_of_range_falls_back_witness:
  "sc_target_round (example_check ''min_lines'' 2 1 5) \<noteq> - 1 \<and>
   int (length (extract_assistant_texts two_reply_rounds))
     \<le> sc_target_round (example_check ''min_lines'' 2 1 5) \<and>
   get_target_text (example_check ''min_lines'' 2 1 5)
     (extract_assistant_texts two_reply_rounds)
     (py_join nl (extract_assistant_texts two_reply_rounds)) = ''alpha'' @ nl @ ''beta'' \<and>
   evaluate_single_check example_py (example_check ''min_lines'' 2 1 5)
     (extract_assistant_texts two_reply_rounds)
     (py_join nl (extract_assistant_texts two_reply_rounds))
   = check_min_lines (example_check ''min_lines'' 2 1 5) (''alpha'' @ nl @ ''beta'') \<and>
   cr_score (evaluate_single_check example_py (example_check ''min_lines'' 2 1 5)
     (extract_assistant_texts two_reply_rounds)
     (py_join nl (extract_assistant_texts two_reply_rounds))) = 1 \<and>
   cr_score (evaluate_single_check example_py (example_check ''min_lines'' 2 1 0)
     (extract_assistant_texts two_reply_rounds)
     (py_join nl (extract_assistant_texts two_reply_rounds))) = 0 \<and>
   sc_target_round (example_check ''min_lines'' 2 1 (- 2)) \<noteq> - 1 \<and>
   sc_target_round (example_check ''min_lines'' 2 1 (- 2)) < 0 \<and>
   cr_score (evaluate_single_check example_py (example_check ''min_lines'' 2 1 (- 2))
     (extract_assistant_texts two_reply_rounds)
     (py_join nl (extract_assistant_texts two_reply_rounds))) = 1"
proof -
  have a: "sc_target_round (example_check ''min_lines'' 2 1 5) \<noteq> - 1"
    and b: "sc_target_round (example_check ''min_lines'' 2 1 5) < 0
            \<or> int (length (extract_assistant_texts two_reply_rounds))
                \<le> sc_target_round (example_check ''min_lines'' 2 1 5)"
    and c: "sc_target_round (example_check ''min_lines'' 2 1 (- 2)) \<noteq> - 1"
    and d: "sc_target_round (example_check ''min_lines'' 2 1 (- 2)) < 0
            \<or> int (length (extract_assistant_texts two_reply_rounds))
                \<le> sc_target_round (example_check ''min_lines'' 2 1 (- 2))"
    by (simp_all add: example_check_def two_reply_texts)
  have types: "sc_check_type (example_check ''min_lines'' 2 1 5) = ''min_lines''"
    "sc_check_type (example_check ''min_lines'' 2 1 (- 2)) = ''min_lines''"
    by (simp_all add: example_check_def)
  have scores: "cr_score (check_min_lines (example_check ''min_lines'' 2 1 5)
                   (''alpha'' @ nl @ ''beta'')) = 1"
    "cr_score (check_min_lines (example_check ''min_lines'' 2 1 (- 2))
                   (''alpha'' @ nl @ ''beta'')) = 1"
    unfolding check_min_lines_def Let_def
    by (simp_all only: nonblank_alpha_beta) (simp_all add: example_check_def py_trunc_def)
  have inside: "cr_score (evaluate_single_check example_py (example_check ''min_lines'' 2 1 0)
     (extract_assistant_texts two_reply_rounds)
     (py_join nl (extract_assistant_texts two_reply_rounds))) = 0"
    unfolding evaluate_single_check_def get_target_text_def check_min_lines_def Let_def
    by (simp only: two_reply_texts) (simp add: nonblank_alpha_beta example_check_def py_trunc_def)
  from target_round_out_of_range_falls_back [OF a b refl refl, of example_py]
       target_round_out_of_range_falls_back [OF c d refl refl, of example_py]
       a c inside scores
  show ?thesis
    by (simp only: types two_reply_texts) (simp add: example_check_def)
qed

section \<open>Properties of the reference layer\<close>

lemma full_response_examples:
  "extract_full_response good_rounds = ''hello'' \<and> extract_full_response empty_rounds = []"
  by (simp add: extract_full_response_def good_rounds_def empty_rounds_def rounds_with_def
      user_msg_def)

lemma strip_hello: "strip ''hello'' = ''hello''"
  by (simp add: strip_def py_isspace_def)

lemma no_sub_checks_example: "no_sub_checks example_test"
  by (simp add: no_sub_checks_def example_test_def truthy_def)

text \<open>
  Claim C7, as stated, says that a test to which none of the five reference sub-checks
  applies gets the normalized score 1.0 on every list of conversation rounds. It fails
  when the assistant has answered nothing: on the example test, which has no reference
  requirement, and a conversation whose only assistant message is empty,
  \<open>evaluate_reference\<close> returns 0.0.
\<close>

theorem reference_no_sub_checks_counterexample:
  "no_sub_checks example_test \<and>
   rs_normalized (evaluate_reference example_py example_test empty_rounds) = 0"
  by (simp add: no_sub_checks_example evaluate_reference_def Let_def full_response_examples
      strip_def)

text \<open>
  Claim C7, amended. For every test and every list of conversation rounds whose assistant
  text is not blank, if none of the five reference sub-checks applies to the test (no
  reference keywords, no anti-keywords, no numeric ranges, no ground truth,
  anti-hallucination flag off), then \<open>evaluate_reference\<close> returns the normalized score
  1.0 exactly. When the assistant text is empty or blank it returns 0.0, whatever the
  test.
\<close>

theorem reference_no_sub_checks:
  "(strip (extract_full_response rounds) \<noteq> [] \<and> no_sub_checks test \<longrightarrow>
      rs_normalized (evaluate_reference py test rounds) = 1) \<and>
   (strip (extract_full_response rounds) = [] \<longrightarrow>
      rs_normalized (evaluate_reference py test rounds) = 0)"
  by (simp add: evaluate_reference_def Let_def no_sub_checks_def)

theorem reference_no_sub_checks_witness:
  "strip (extract_full_response good_rounds) \<noteq> [] \<and> no_sub_checks example_test \<and>
   rs_normalized (evaluate_reference example_py example_test good_rounds) = 1 \<and>
   strip (extract_full_response empty_rounds) = [] \<and>
   rs_normalized (evaluate_reference example_py example_test empty_rounds) = 0"
  using reference_no_sub_checks [of good_rounds example_test example_py]
        reference_no_sub_checks [of empty_rounds example_test example_py]
  by (simp add: no_sub_checks_example full_response_examples strip_hello) (simp add: strip_def)

section \<open>Properties of the statistics\<close>

subsection \<open>Rounding to decimals\<close>

lemma pow2_pos: "0 < pow2 e"
  by (simp add: pow2_def)

lemma py_round_nonneg: "0 \<le> z \<Longrightarrow> 0 \<le> py_round z"
  by (auto simp: py_round_def Let_def)

lemma py_round_ge_one:
  assumes "1 \<le> z"
  shows "1 \<le> py_round z"
proof -
  from assms have "1 \<le> \<lfloor>z\<rfloor>" by linarith
  then show ?thesis by (auto simp: py_round_def Let_def)
qed

lemma py_round_eq_zero_iff:
  assumes "0 \<le> z"
  shows "py_round z = 0 \<longleftrightarrow> z \<le> 1 / 2"
proof (cases "z < 1")
  case True
  with assms have f: "\<lfloor>z\<rfloor> = 0" by linarith
  show ?thesis by (auto simp: py_round_def Let_def f)
next
  case False
  then have "1 \<le> py_round z" by (simp add: py_round_ge_one)
  with False show ?thesis by simp
qed

lemma fl_nonneg: "0 \<le> x \<Longrightarrow> 0 \<le> fl x"
  using pow2_pos [of "exponent x - 52"]
  by (simp add: fl_def Let_def py_round_nonneg less_imp_le)

text \<open>A number of at least one ten-thousandth is not rounded to zero.\<close>

lemma fl_positive:
  assumes "1 / 10000 \<le> x"
  shows "0 < fl x"
proof -
  from assms have pos: "0 < x" by simp
  define k where "k = \<lfloor>log 2 x\<rfloor>"
  have b: "2 powr (real_of_int k) \<le> x" "x < 2 powr (real_of_int (k + 1))"
    using floor_log_eq_powr_iff [of x 2 k] pos by (simp_all add: k_def)
  have k: "- 14 \<le> k"
  proof (rule ccontr)
    assume "\<not> - 14 \<le> k"
    then have "k + 1 \<le> - 14" by simp
    then have "2 powr (real_of_int (k + 1)) \<le> 2 powr (real_of_int (- 14 :: int))"
      by (intro powr_mono) simp_all
    also have "\<dots> = pow2 (- 14)" by (simp add: pow2_powr)
    also have "\<dots> < 1 / 10000" by (simp add: pow2_def)
    finally show False using b(2) assms by simp
  qed
  have e: "pow2 k \<le> \<bar>x\<bar>" "\<bar>x\<bar> < pow2 (k + 1)" "- 1022 \<le> k"
    using b pos k by (simp_all add: pow2_powr)
  have "x / pow2 (k - 52) \<ge> pow2 k / pow2 (k - 52)"
    using e(1) pos pow2_pos [of "k - 52"] by (simp add: divide_right_mono)
  moreover have "pow2 k / pow2 (k - 52) = 2 ^ 52"
  proof -
    have "pow2 k = pow2 (k - 52) * 2 ^ 52"
      by (simp add: pow2_powr powr_diff)
    then show ?thesis using pow2_pos [of "k - 52"] by simp
  qed
  ultimately have "1 \<le> x / pow2 (k - 52)" by simp
  then have "1 \<le> py_round (x / pow2 (k - 52))" by (rule py_round_ge_one)
  then have "0 < real_of_int (py_round (x / pow2 (k - 52))) * pow2 (k - 52)"
    using pow2_pos [of "k - 52"] by simp
  then show ?thesis by (simp add: fl_eq [OF e])
qed

text \<open>\<open>round(sd, 4)\<close> is 0 exactly for the values up to half a ten-thousandth.\<close>

lemma round_float_eq_zero_iff:
  assumes "0 \<le> sd"
  shows "round_float 4 sd = 0 \<longleftrightarrow> sd \<le> 1 / 20000"
proof -
  define k where "k = py_round (sd * 10 ^ 4)"
  have k0: "0 \<le> k" using assms by (simp add: k_def py_round_nonneg)
  have kz: "k = 0 \<longleftrightarrow> sd \<le> 1 / 20000"
    using py_round_eq_zero_iff [of "sd * 10 ^ 4"] assms by (simp add: k_def mult.commute)
  have r: "round_float 4 sd = fl (real_of_int k / 10 ^ 4)"
    by (simp add: round_float_def py_round_to_def k_def)
  show ?thesis
  proof (cases "k = 0")
    case True
    with kz r show ?thesis by (simp add: fl_zero)
  next
    case False
    with k0 have "1 \<le> k" by simp
    then have "1 / 10000 \<le> real_of_int k / 10 ^ 4" by simp
    then have "0 < fl (real_of_int k / 10 ^ 4)" by (rule fl_positive)
    with False kz r show ?thesis by simp
  qed
qed



subsection \<open>The computed standard deviation\<close>

lemma fsum_nonneg_from:
  "0 \<le> acc \<Longrightarrow> (\<forall>v \<in> set vs. 0 \<le> v) \<Longrightarrow> 0 \<le> foldl (\<lambda>acc v. fl (acc + v)) acc vs"
  by (induction vs arbitrary: acc) (simp_all add: fl_nonneg)

lemma fsum_nonneg: "(\<forall>v \<in> set vs. 0 \<le> v) \<Longrightarrow> 0 \<le> fsum vs"
  by (simp add: fsum_def fsum_nonneg_from)

lemma computed_std_nonneg: "0 \<le> computed_std values"
proof -
  have "0 \<le> fsum (map (\<lambda>x. fl ((fl (x - computed_mean values)) ^ 2)) values)"
    by (rule fsum_nonneg) (simp add: fl_nonneg)
  moreover have "0 \<le> fl (real (length values - 1))"
    by (simp add: fl_nonneg)
  ultimately show ?thesis
    by (simp add: computed_std_def Let_def fl_nonneg)
qed


lemma mean_and_std_many:
  "2 \<le> length values \<Longrightarrow>
   mean_and_std values
     = (round_float 4 (computed_mean values), round_float 4 (computed_std values))"
  by (auto simp: mean_and_std_def Let_def)

subsection \<open>Two samples of equal elements\<close>

lemma fl_four: "fl 4 = 4"
  by (rule fl_exact [where e = 2 and m = "2 ^ 52"]) (simp_all add: pow2_def)




subsection \<open>A sample of equal elements with a computed deviation\<close>

lemma fl_five: "fl 5 = 5"
  by (rule fl_exact [where e = 2 and m = "5 * 2 ^ 50"]) (simp_all add: pow2_def)

lemma sum_once: "fl (2161170081228383 / 4096) = 2161170081228383 / 4096"
  by (subst fl_eq [where e = 38]) (simp_all add: pow2_def py_round_def Let_def)

lemma sum_twice: "fl (2161170081228383 / 2048) = 2161170081228383 / 2048"
  by (subst fl_eq [where e = 39]) (simp_all add: pow2_def py_round_def Let_def)

lemma sum_thrice: "fl (6483510243685149 / 4096) = 6483510243685149 / 4096"
  by (subst fl_eq [where e = 40]) (simp_all add: pow2_def py_round_def Let_def)

lemma sum_four_times: "fl (2161170081228383 / 1024) = 2161170081228383 / 1024"
  by (subst fl_eq [where e = 40]) (simp_all add: pow2_def py_round_def Let_def)

lemma sum_five_times: "fl (10805850406141915 / 4096) = 2701462601535479 / 1024"
  by (subst fl_eq [where e = 41]) (simp_all add: pow2_def py_round_def Let_def)

lemma mean_of_five: "fl (2701462601535479 / 5120) = 8644680324913533 / 16384"
  by (subst fl_eq [where e = 38]) (simp_all add: pow2_def py_round_def Let_def)

lemma computed_mean_constant_sample:
  "computed_mean constant_sample = 8644680324913533 / 16384"
  by (simp add: computed_mean_def constant_sample_def fsum_def numeral_eq_Suc fl_five
      sum_once sum_twice sum_thrice sum_four_times sum_five_times mean_of_five)

lemma deviation_steps:
  "fl (- (1 / 16384)) = - (1 / 16384)"
  "fl (1 / 268435456) = 1 / 268435456"
  "fl (1 / 134217728) = 1 / 134217728"
  "fl (3 / 268435456) = 3 / 268435456"
  "fl (1 / 67108864) = 1 / 67108864"
  "fl (5 / 268435456) = 5 / 268435456"
  "fl (5 / 1073741824) = 5 / 1073741824"
proof -
  show "fl (- (1 / 16384)) = - (1 / 16384)"
    by (rule fl_exact [where e = "- 14" and m = "- (2 ^ 52)"]) (simp_all add: pow2_def)
  show "fl (1 / 268435456) = 1 / 268435456"
    by (rule fl_exact [where e = "- 28" and m = "2 ^ 52"]) (simp_all add: pow2_def)
  show "fl (1 / 134217728) = 1 / 134217728"
    by (rule fl_exact [where e = "- 27" and m = "2 ^ 52"]) (simp_all add: pow2_def)
  show "fl (3 / 268435456) = 3 / 268435456"
    by (rule fl_exact [where e = "- 27" and m = "3 * 2 ^ 51"]) (simp_all add: pow2_def)
  show "fl (1 / 67108864) = 1 / 67108864"
    by (rule fl_exact [where e = "- 26" and m = "2 ^ 52"]) (simp_all add: pow2_def)
  show "fl (5 / 268435456) = 5 / 268435456"
    by (rule fl_exact [where e = "- 26" and m = "5 * 2 ^ 50"]) (simp_all add: pow2_def)
  show "fl (5 / 1073741824) = 5 / 1073741824"
    by (rule fl_exact [where e = "- 28" and m = "5 * 2 ^ 50"]) (simp_all add: pow2_def)
qed

lemma computed_std_constant_sample:
  "computed_std constant_sample = fl (sqrt (5 / 1073741824))"
  unfolding computed_std_def Let_def computed_mean_constant_sample
  by (simp add: constant_sample_def fsum_def numeral_eq_Suc fl_four deviation_steps
        del: real_sqrt_divide)

lemma py_round_ge_int: "real_of_int n \<le> z \<Longrightarrow> n \<le> py_round z"
proof -
  assume "real_of_int n \<le> z"
  then have "n \<le> \<lfloor>z\<rfloor>" by linarith
  then show ?thesis by (auto simp: py_round_def Let_def)
qed

lemma root_bounds: "1 / 16384 \<le> sqrt (5 / 1073741824)" "sqrt (5 / 1073741824) < 1 / 8192"
proof -
  have "sqrt ((1 / 16384) ^ 2) \<le> sqrt (5 / 1073741824)"
    by (subst real_sqrt_le_iff) (simp add: power2_eq_square)
  then show "1 / 16384 \<le> sqrt (5 / 1073741824)" by (simp del: real_sqrt_divide)
  have "sqrt (5 / 1073741824) < sqrt ((1 / 8192) ^ 2)"
    by (subst real_sqrt_less_iff) (simp add: power2_eq_square)
  then show "sqrt (5 / 1073741824) < 1 / 8192" by (simp del: real_sqrt_divide)
qed

lemma computed_std_constant_sample_bound: "1 / 16384 \<le> computed_std constant_sample"
proof -
  let ?y = "sqrt (5 / 1073741824)"
  have e: "pow2 (- 14) \<le> \<bar>?y\<bar>" "\<bar>?y\<bar> < pow2 (- 14 + 1)" "- 1022 \<le> (- 14 :: int)"
    using root_bounds by (simp_all add: pow2_def)
  have u: "pow2 (- 14 - 52) = 1 / 2 ^ 66" by (simp add: pow2_def)
  have "real_of_int (2 ^ 52) \<le> ?y / pow2 (- 14 - 52)"
    using root_bounds(1) unfolding u by simp
  then have "2 ^ 52 \<le> py_round (?y / pow2 (- 14 - 52))" by (rule py_round_ge_int)
  then have "real_of_int (2 ^ 52) \<le> real_of_int (py_round (?y / pow2 (- 14 - 52)))"
    by (simp only: of_int_le_iff)
  then have "1 / 16384 \<le> real_of_int (py_round (?y / pow2 (- 14 - 52))) * pow2 (- 14 - 52)"
    unfolding u by simp
  then show ?thesis
    by (simp only: computed_std_constant_sample fl_eq [OF e])
qed

lemma constant_sample_exact: "sample_mean constant_sample = 2161170081228383 / 4096 \<and>
   sample_std constant_sample = 0"
  by (simp add: sample_mean_def sample_std_def constant_sample_def numeral_eq_Suc)

text \<open>The elements of the sample are equal, so its standard deviation is 0. The sum of
  the five is rounded up, the computed mean is the next double above the element, and
  the computed standard deviation is rounded to \<open>0.0001\<close>, not to 0: the interval of
  this sample does not collapse.\<close>

lemma constant_sample_not_collapsed:
  "sample_std constant_sample = 0 \<and> computed_mean constant_sample > sample_mean constant_sample \<and>
   snd (mean_and_std constant_sample) \<noteq> 0"
proof -
  have l: "2 \<le> length constant_sample" by (simp add: constant_sample_def)
  have "\<not> computed_std constant_sample \<le> 1 / 20000"
    using computed_std_constant_sample_bound by simp
  then have "round_float 4 (computed_std constant_sample) \<noteq> 0"
    by (simp only: round_float_eq_zero_iff [OF computed_std_nonneg [of constant_sample]])
       simp
  then show ?thesis
    by (simp add: mean_and_std_many [OF l] constant_sample_exact computed_mean_constant_sample)
qed




section \<open>Properties of the orchestrator\<close>

subsection \<open>The runs of the example\<close>

lemma py_round_to_half: "py_round_to 4 (1 / 2) = 1 / 2"
proof -
  have "(1 / 2 :: real) * 10 ^ 4 = real_of_int 5000" by simp
  then have "py_round ((1 / 2) * 10 ^ 4) = 5000"
    by (simp only: py_round_of_int)
  then show ?thesis by (simp add: py_round_to_def)
qed

lemma py_round_to_five_sixths: "py_round_to 4 (5 / 6) = 8333 / 10000"
proof -
  have f: "\<lfloor>(25000 / 3 :: real)\<rfloor> = 8333"
    by (simp add: floor_eq_iff)
  have "(5 / 6 :: real) * 10 ^ 4 = 25000 / 3" by simp
  then have "py_round ((5 / 6) * 10 ^ 4) = 8333"
    unfolding py_round_def Let_def by (simp only: f) simp
  then show ?thesis by (simp add: py_round_to_def)
qed

lemma execute_claude: "execute claude example_test () = (Inr good_rounds, ())"
  by (simp add: execute_def example_test_def claude_def replying_def answer_def good_rounds_def
      rounds_with_def assistant_msg_def)

lemma execute_gpt: "execute gpt example_test () = (Inr failed_rounds, ())"
  by (simp add: execute_def example_test_def gpt_def replying_def failure_def failed_rounds_def
      rounds_with_def assistant_msg_def)

lemma execute_gemini: "execute gemini example_test () = (Inr gemini_rounds, ())"
  by (simp add: execute_def example_test_def gemini_def replying_def answer_def
      gemini_rounds_def rounds_with_def assistant_msg_def)

lemma has_error_examples:
  "has_error failed_rounds \<and> \<not> has_error good_rounds \<and> \<not> has_error gemini_rounds"
  by (simp add: has_error_def failed_rounds_def good_rounds_def gemini_rounds_def
      rounds_with_def user_msg_def truthy_def)

lemma structural_example:
  "evaluate_structural py (td_structural_checks example_test) rounds
     = \<lparr>ss_normalized = 1, ss_details = [], ss_total_weight = 0, ss_weighted_score = 0\<rparr>"
  by (simp add: evaluate_structural_def example_test_def)

lemma reference_example:
  "evaluate_reference py example_test good_rounds
     = \<lparr>rs_normalized = 1, rs_sub_scores = [], rs_hallucination_flags = []\<rparr> \<and>
   evaluate_reference py example_test gemini_rounds
     = \<lparr>rs_normalized = 1, rs_sub_scores = [], rs_hallucination_flags = []\<rparr>"
  by (simp add: evaluate_reference_def example_test_def good_rounds_def gemini_rounds_def
      rounds_with_def user_msg_def extract_full_response_def strip_def py_isspace_def truthy_def)

lemma provider_ids:
  "prov_provider_id claude = ''claude'' \<and> prov_provider_id gpt = ''gpt'' \<and>
   prov_provider_id gemini = ''gemini''"
  by (simp add: claude_def gpt_def gemini_def replying_def)

lemma run_claude:
  "run_single_evaluation example_py example_test claude three_providers True ()
     = (Inr (judged_result ''claude'' good_rounds three_result three_audit (8333 / 10000)), ())"
  by (simp add: run_single_evaluation_def execute_claude has_error_examples structural_example
      reference_example provider_ids run_three_providers judged_result_def)
     (simp add: three_result_def example_test_def py_round_to_five_sixths)

lemma run_gpt:
  "run_single_evaluation py example_test gpt providers en ()
     = (Inr (error_result ''t1'' ''gpt'' failed_rounds), ())"
  by (simp add: run_single_evaluation_def execute_gpt has_error_examples provider_ids
      error_result_def)
     (simp add: example_test_def)

lemma run_gemini:
  "run_single_evaluation example_py example_test gemini three_providers True ()
     = (Inr (judged_result ''gemini'' gemini_rounds gemini_result gemini_audit (1 / 2)), ())"
  by (simp add: run_single_evaluation_def execute_gemini has_error_examples structural_example
      reference_example provider_ids run_three_providers_gemini judged_result_def)
     (simp add: gemini_result_def example_test_def py_round_to_half)

lemma example_run_matrix:
  "run_matrix 1 [(''t1'', example_test)] three_providers
     = [(0, (''t1'', example_test), (''claude'', claude)),
        (0, (''t1'', example_test), (''gpt'', gpt)),
        (0, (''t1'', example_test), (''gemini'', gemini))]"
  by (simp add: run_matrix_def three_providers_def)

text \<open>The main loop on the example: every run is logged, the failed run of gpt
  included, and the pair stored for claude is the final raw score 2 twice, although the
  primary judge scored 0 and the tiebreak judge 3.\<close>

lemma example_main_loop:
  "\<exists>st. main_loop example_py three_providers True
           (run_matrix 1 [(''t1'', example_test)] three_providers) initial_state ()
           = (Inr st, ()) \<and>
         ls_judge_pairs st ''claude_vs_gpt'' = Some [(2, 2)] \<and>
         ls_judge_pairs st ''gemini_vs_claude'' = Some [(0, 0)] \<and>
         map er_model (ls_all_evaluations st) = [''claude'', ''gpt'', ''gemini'']"
  unfolding example_run_matrix
  by (simp add: run_claude run_gpt run_gemini accumulate_def Let_def
      initial_state_def judged_result_def error_result_def three_result_def gemini_result_def)

subsection \<open>The table of judge pairs\<close>

lemma pairs_equal_append:
  assumes "pairs_equal judge_pairs"
  shows "pairs_equal (judge_pairs(key \<mapsto>
           (case judge_pairs key of None \<Rightarrow> [] | Some ps \<Rightarrow> ps) @ [(v, v)]))"
proof (cases "judge_pairs key")
  case None
  with assms show ?thesis by (auto simp: pairs_equal_def split: if_splits)
next
  case (Some ps)
  with assms show ?thesis by (auto simp: pairs_equal_def split: if_splits)
qed

lemma accumulate_pairs_equal:
  assumes "pairs_equal (ls_judge_pairs st)"
  shows "pairs_equal (ls_judge_pairs (accumulate st seed test_id provider_id result))"
  using assms pairs_equal_append [OF assms]
  by (simp add: accumulate_def Let_def)

lemma main_loop_pairs_equal:
  assumes "main_loop py providers en runs st w = (Inr st', w')"
    and "pairs_equal (ls_judge_pairs st)"
  shows "pairs_equal (ls_judge_pairs st')"
  using assms
proof (induction runs arbitrary: st w)
  case Nil
  then show ?case by simp
next
  case (Cons run runs)
  obtain seed test_id test provider_id p where run: "run = (seed, (test_id, test), (provider_id, p))"
    by (metis surj_pair)
  obtain out w1 where rs: "run_single_evaluation py test p providers en w = (out, w1)"
    by (metis surj_pair)
  show ?case
  proof (cases out)
    case (Inl e)
    with Cons.prems(1) run rs show ?thesis by simp
  next
    case (Inr result)
    with Cons.prems(1) run rs
    have "main_loop py providers en runs (accumulate st seed test_id provider_id result) w1
            = (Inr st', w')"
      by simp
    from Cons.IH [OF this accumulate_pairs_equal [OF Cons.prems(2)]] show ?thesis .
  qed
qed

text \<open>What one pass of the loop body does to a cell of the table: nothing, or it appends
  the raw judge score of the result, twice.\<close>

lemma accumulate_appends_raw_twice:
  "ls_judge_pairs (accumulate st seed test_id provider_id result) key = ls_judge_pairs st key \<or>
   ls_judge_pairs (accumulate st seed test_id provider_id result) key
     = Some ((case ls_judge_pairs st key of None \<Rightarrow> [] | Some ps \<Rightarrow> ps)
             @ [(case er_judge_raw result of None \<Rightarrow> 0 | Some v \<Rightarrow> v,
                 case er_judge_raw result of None \<Rightarrow> 0 | Some v \<Rightarrow> v)])"
  by (simp add: accumulate_def Let_def)

text \<open>
  Claim C4. Every pair that the orchestrator appends to the table of judge pairs is
  \<open>(judge_raw, judge_raw)\<close>, the raw score of the judge layer stored twice; so for every
  completed run of the main loop, every pair \<open>(a, b)\<close> stored in every cell of the table
  satisfies \<open>a = b\<close>.
\<close>

theorem judge_pairs_components_equal:
  "(ls_judge_pairs (accumulate st0 seed test_id provider_id result) key = ls_judge_pairs st0 key \<or>
    ls_judge_pairs (accumulate st0 seed test_id provider_id result) key
      = Some ((case ls_judge_pairs st0 key of None \<Rightarrow> [] | Some ps \<Rightarrow> ps)
              @ [(case er_judge_raw result of None \<Rightarrow> 0 | Some v \<Rightarrow> v,
                  case er_judge_raw result of None \<Rightarrow> 0 | Some v \<Rightarrow> v)])) \<and>
   (main_loop py providers en (run_matrix seeds tests providers) initial_state w = (Inr st, w')
      \<longrightarrow> (\<forall>k pairs a b. ls_judge_pairs st k = Some pairs \<longrightarrow> (a, b) \<in> set pairs \<longrightarrow> a = b))"
proof -
  have init: "pairs_equal (ls_judge_pairs initial_state)"
    by (simp add: pairs_equal_def initial_state_def)
  have "pairs_equal (ls_judge_pairs st)"
    if "main_loop py providers en (run_matrix seeds tests providers) initial_state w
          = (Inr st, w')"
    by (rule main_loop_pairs_equal [OF that init])
  then show ?thesis
    using accumulate_appends_raw_twice [of st0 seed test_id provider_id result key]
    unfolding pairs_equal_def by blast
qed

theorem judge_pairs_components_equal_witness:
  "\<exists>st. main_loop example_py three_providers True
           (run_matrix 1 [(''t1'', example_test)] three_providers) initial_state ()
           = (Inr st, ()) \<and>
         ls_judge_pairs st ''claude_vs_gpt'' = Some [(2, 2)] \<and>
         (2, 2) \<in> set [(2 :: int, 2 :: int)]"
  using example_main_loop
        judge_pairs_components_equal
          [where py = example_py and providers = three_providers and en = True and seeds = 1
             and tests = "[(''t1'', example_test)]" and w = "()"]
  by auto

subsection \<open>An execution error\<close>



end
